theory Spec2Isabelle
  imports
    Main
    "HOL-Library.Word"
    "HOL-Library.Char_ord"
    "HOL-Library.List_Lexorder"
    "HOL-Library.Sublist"
    "HOL-Library.Multiset"
begin

unbundle bit_operations_syntax

section \<open>Strings of the worker\<close>

text \<open>
  The worker of \<^verbatim>\<open>src/index.ts\<close> handles JavaScript strings. They are modelled as
  \<^typ>\<open>string\<close>, one \<^typ>\<open>char\<close> per code unit, so the model covers the strings
  whose code units lie in 0..255 (ASCII and Latin-1; HTTP header values are exactly
  such byte strings). The order on strings is the lexicographic order on code
  units, which is what \<^verbatim>\<open>a < b\<close> computes on JavaScript strings.
\<close>

text \<open>\<^verbatim>\<open>s.split(sep)\<close> for a one-character separator: never the empty list.\<close>

fun split_on :: "char \<Rightarrow> string \<Rightarrow> string list" where
  "split_on sep [] = [[]]"
| "split_on sep (c # cs) =
     (if c = sep then [] # split_on sep cs
      else (case split_on sep cs of
              w # ws \<Rightarrow> (c # w) # ws
            | [] \<Rightarrow> [[c]]))"

text \<open>\<^verbatim>\<open>parts.join(sep)\<close>.\<close>

fun join :: "string \<Rightarrow> string list \<Rightarrow> string" where
  "join sep [] = []"
| "join sep [x] = x"
| "join sep (x # y # ys) = x @ sep @ join sep (y # ys)"

text \<open>\<^verbatim>\<open>s.includes(sub)\<close>: \<open>sub\<close> occurs in \<open>s\<close> as a contiguous run.\<close>

fun str_includes :: "string \<Rightarrow> string \<Rightarrow> bool" where
  "str_includes [] sub = (sub = [])"
| "str_includes (c # cs) sub = (prefix sub (c # cs) \<or> str_includes cs sub)"

text \<open>
  White space of \<^verbatim>\<open>String.prototype.trim\<close> and of the regular-expression class
  \<^verbatim>\<open>\s\<close>, within the code units 0..255: TAB, LF, VT, FF, CR, SPACE and NBSP.
\<close>

definition is_space :: "char \<Rightarrow> bool" where
  "is_space c = ((of_char c :: nat) \<in> {9, 10, 11, 12, 13, 32, 160})"

definition trim :: "string \<Rightarrow> string" where
  "trim s = rev (dropWhile is_space (rev (dropWhile is_space s)))"

text \<open>
  \<^verbatim>\<open>s.toLowerCase()\<close> within the code units 0..255: A-Z, and the Latin-1 capitals
  U+00C0..U+00DE except the multiplication sign U+00D7, move up by 32.
\<close>

definition lower_char :: "char \<Rightarrow> char" where
  "lower_char c =
     (let n = (of_char c :: nat)
      in if (65 \<le> n \<and> n \<le> 90) \<or> (192 \<le> n \<and> n \<le> 222 \<and> n \<noteq> 215)
         then char_of (n + 32) else c)"

definition toLowerCase :: "string \<Rightarrow> string" where
  "toLowerCase s = map lower_char s"

text \<open>A number in a template literal: its decimal digits.\<close>

definition digit_char :: "nat \<Rightarrow> char" where
  "digit_char d = char_of (48 + d)"

fun show_nat :: "nat \<Rightarrow> string" where
  "show_nat n = (if n < 10 then [digit_char n] else show_nat (n div 10) @ [digit_char (n mod 10)])"

declare show_nat.simps [simp del]

section \<open>Requests, configuration and responses\<close>

text \<open>
  \<^verbatim>\<open>new URL(request.url)\<close>: the parsed parts the handler reads. \<open>url_searchParams\<close>
  is \<^verbatim>\<open>url.searchParams.entries()\<close>, the decoded pairs in the order of the query
  string, duplicates kept.
\<close>

record url =
  url_protocol :: string
  url_hostname :: string
  url_port :: string
  url_pathname :: string
  url_searchParams :: "(string \<times> string) list"

text \<open>
  A \<^verbatim>\<open>Headers\<close> object as \<^verbatim>\<open>get\<close> sees it: the value stored under a lower-cased
  name, if any.
\<close>

type_synonym headers = "string \<Rightarrow> string option"

text \<open>
  The inbound \<^verbatim>\<open>Request\<close>. \<open>req_body\<close> is \<^verbatim>\<open>request.body\<close>: \<open>None\<close> for
  \<^verbatim>\<open>null\<close>, otherwise the content of the stream.
\<close>

record request =
  req_method :: string
  req_url :: url
  req_headers :: headers
  req_body :: "string option"

text \<open>The interface \<^verbatim>\<open>Env\<close> (index.ts, lines 138-147); the optional fields are options.\<close>

record env =
  ACCESS_KEY :: string
  SECRET_KEY :: string
  REGION :: string
  B2_KEY_ID :: string
  B2_APPLICATION_KEY :: string
  B2_ENDPOINT :: string
  B2_REGION :: "string option"
  ALLOWED_BUCKETS :: "string option"

text \<open>
  A \<^verbatim>\<open>Response\<close> built by the handler: status, the headers passed to the
  constructor, and the body (\<open>None\<close> for \<^verbatim>\<open>null\<close>).
\<close>

record response =
  status :: nat
  resp_headers :: "(string \<times> string) list"
  resp_body :: "string option"

text \<open>A thrown JavaScript error; the handler reads only its \<^verbatim>\<open>message\<close>.\<close>

datatype js_error = Error (message: string) | TypeError (message: string)

section \<open>Path parsing and the bucket allow-list\<close>

text \<open>
  index.ts, lines 19-21:
  \<^verbatim>\<open>pathParts = url.pathname.split("/").filter((p) => p)\<close>,
  \<^verbatim>\<open>bucket = pathParts[0] || ""\<close>, \<^verbatim>\<open>objectKey = pathParts.slice(1).join("/")\<close>.
\<close>

definition pathParts :: "string \<Rightarrow> string list" where
  "pathParts pathname = filter (\<lambda>p. p \<noteq> []) (split_on CHR ''/'' pathname)"

definition bucket_of :: "string \<Rightarrow> string" where
  "bucket_of pathname = (case pathParts pathname of [] \<Rightarrow> [] | b # _ \<Rightarrow> b)"

definition objectKey_of :: "string \<Rightarrow> string" where
  "objectKey_of pathname = join ''/'' (drop 1 (pathParts pathname))"

text \<open>
  \<^verbatim>\<open>isAllowedBucket\<close> (index.ts, lines 149-167). \<^verbatim>\<open>!env.ALLOWED_BUCKETS\<close> holds
  for an unset value and for the empty string.
\<close>

definition allowedBuckets :: "string \<Rightarrow> string list" where
  "allowedBuckets s = filter (\<lambda>b. b \<noteq> []) (map trim (split_on CHR '','' s))"

definition isAllowedBucket :: "string \<Rightarrow> env \<Rightarrow> bool" where
  "isAllowedBucket bucket e =
     (case ALLOWED_BUCKETS e of
        None \<Rightarrow> False
      | Some s \<Rightarrow>
          if s = [] then False
          else if length (allowedBuckets s) = 0 then False
          else bucket \<in> set (allowedBuckets s))"

section \<open>The platform: headers, text encoding, Web Crypto\<close>

text \<open>
  \<^verbatim>\<open>Headers.get(name)\<close> of the Fetch standard: a \<^verbatim>\<open>TypeError\<close> when \<open>name\<close> is not
  a header name (a non-empty run of token characters), otherwise the value stored
  under the byte-lower-cased name. Only the kind of the error matters below; its
  message is the runtime's.
\<close>

definition is_token_char :: "char \<Rightarrow> bool" where
  "is_token_char c =
     (let n = (of_char c :: nat)
      in (48 \<le> n \<and> n \<le> 57) \<or> (65 \<le> n \<and> n \<le> 90) \<or> (97 \<le> n \<and> n \<le> 122)
         \<or> c \<in> set ''!#$%&*+-.^_`|~'' \<or> n = 39)"

definition valid_header_name :: "string \<Rightarrow> bool" where
  "valid_header_name name = (name \<noteq> [] \<and> list_all is_token_char name)"

definition ascii_lower :: "char \<Rightarrow> char" where
  "ascii_lower c =
     (let n = (of_char c :: nat) in if 65 \<le> n \<and> n \<le> 90 then char_of (n + 32) else c)"

definition headers_get :: "headers \<Rightarrow> string \<Rightarrow> js_error + string option" where
  "headers_get h name =
     (if valid_header_name name then Inr (h (map ascii_lower name))
      else Inl (TypeError ''Invalid header name.''))"

text \<open>
  The header names the worker writes as literals are header names, so for them
  \<^verbatim>\<open>get\<close> cannot throw and the model looks the value up directly.
\<close>

definition header :: "headers \<Rightarrow> string \<Rightarrow> string option" where
  "header h name = h (map ascii_lower name)"

text \<open>\<^verbatim>\<open>url.searchParams.get(k)\<close> and \<^verbatim>\<open>has(k)\<close>: the first pair with that key.\<close>

definition searchParams_get :: "(string \<times> string) list \<Rightarrow> string \<Rightarrow> string option" where
  "searchParams_get ps k = map_of ps k"

definition searchParams_has :: "(string \<times> string) list \<Rightarrow> string \<Rightarrow> bool" where
  "searchParams_has ps k = (map_of ps k \<noteq> None)"

type_synonym byte = "8 word"

text \<open>
  \<^verbatim>\<open>new TextEncoder().encode(s)\<close>: UTF-8. A code unit below 128 is one byte, a
  code unit in 128..255 two bytes.
\<close>

definition utf8_char :: "char \<Rightarrow> byte list" where
  "utf8_char c =
     (let n = (of_char c :: nat)
      in if n < 128 then [of_nat n]
         else [of_nat (192 + n div 64), of_nat (128 + n mod 64)])"

definition utf8_encode :: "string \<Rightarrow> byte list" where
  "utf8_encode s = concat (map utf8_char s)"

text \<open>
  The two Web Crypto operations the worker calls: \<^verbatim>\<open>crypto.subtle.digest("SHA-256", d)\<close>
  and \<^verbatim>\<open>crypto.subtle.sign("HMAC", key, d)\<close> for a raw key imported with hash
  SHA-256. They belong to the runtime, not to the repository, so the worker is
  modelled over any pair of such functions.
\<close>

record crypto =
  subtle_digest :: "byte list \<Rightarrow> byte list"
  subtle_sign :: "byte list \<Rightarrow> byte list \<Rightarrow> byte list"

section \<open>AWS Signature V4 verification\<close>

text \<open>Lower-case hexadecimal digits (\<^verbatim>\<open>toString(16)\<close>), and their upper-case form.\<close>

definition hex_digit :: "nat \<Rightarrow> char" where
  "hex_digit d = (if d < 10 then char_of (48 + d) else char_of (87 + d))"

definition hex_digit_upper :: "nat \<Rightarrow> char" where
  "hex_digit_upper d = (if d < 10 then char_of (48 + d) else char_of (55 + d))"

text \<open>\<^verbatim>\<open>bufToHex\<close> (index.ts, lines 384-388): two digits per byte.\<close>

definition byte_hex :: "byte \<Rightarrow> string" where
  "byte_hex b = [hex_digit (unat b div 16), hex_digit (unat b mod 16)]"

definition bufToHex :: "byte list \<Rightarrow> string" where
  "bufToHex buf = concat (map byte_hex buf)"

text \<open>\<^verbatim>\<open>sha256\<close> (index.ts, lines 379-382).\<close>

definition sha256 :: "crypto \<Rightarrow> string \<Rightarrow> string" where
  "sha256 c data = bufToHex (subtle_digest c (utf8_encode data))"

text \<open>
  \<^verbatim>\<open>hmacSha256\<close> (index.ts, lines 373-377): the key is a string (\<open>Inl\<close>, encoded
  as UTF-8) or an \<^verbatim>\<open>ArrayBuffer\<close> (\<open>Inr\<close>).
\<close>

definition hmacSha256 :: "crypto \<Rightarrow> string + byte list \<Rightarrow> string \<Rightarrow> byte list" where
  "hmacSha256 c key data =
     (let keyData = (case key of Inl s \<Rightarrow> utf8_encode s | Inr b \<Rightarrow> b)
      in subtle_sign c keyData (utf8_encode data))"

text \<open>\<^verbatim>\<open>getSigningKey\<close> (index.ts, lines 366-371).\<close>

definition getSigningKey :: "crypto \<Rightarrow> string \<Rightarrow> string \<Rightarrow> string \<Rightarrow> string \<Rightarrow> byte list" where
  "getSigningKey c secret date region service =
     (let kDate = hmacSha256 c (Inl (''AWS4'' @ secret)) date;
          kRegion = hmacSha256 c (Inr kDate) region;
          kService = hmacSha256 c (Inr kRegion) service
      in hmacSha256 c (Inr kService) ''aws4_request'')"

text \<open>
  \<^verbatim>\<open>encodeRFC3986\<close> (index.ts, lines 362-364). \<^verbatim>\<open>encodeURIComponent\<close> keeps the
  letters, the digits and \<^verbatim>\<open>-_.!~*'()\<close>, and writes every other code unit as the
  percent-encoded bytes of its UTF-8 form, in upper-case hexadecimal; the
  replacement then escapes \<^verbatim>\<open>!'()*\<close> as well.
\<close>

definition percent_byte :: "byte \<Rightarrow> string" where
  "percent_byte b = [CHR ''%'', hex_digit_upper (unat b div 16), hex_digit_upper (unat b mod 16)]"

definition is_alnum :: "char \<Rightarrow> bool" where
  "is_alnum c =
     (let n = (of_char c :: nat)
      in (48 \<le> n \<and> n \<le> 57) \<or> (65 \<le> n \<and> n \<le> 90) \<or> (97 \<le> n \<and> n \<le> 122))"

definition encodeURIComponent_char :: "char \<Rightarrow> string" where
  "encodeURIComponent_char c =
     (if is_alnum c \<or> c \<in> set ''-_.!~*'' \<or> c \<in> {CHR 0x27, CHR ''('', CHR '')''} then [c]
      else concat (map percent_byte (utf8_char c)))"

definition encodeURIComponent :: "string \<Rightarrow> string" where
  "encodeURIComponent s = concat (map encodeURIComponent_char s)"

definition escape_sub_delim :: "char \<Rightarrow> string" where
  "escape_sub_delim c =
     (if c \<in> {CHR ''!'', CHR 0x27, CHR ''('', CHR '')'', CHR ''*''}
      then [CHR ''%'', hex_digit_upper (of_char c div 16), hex_digit_upper (of_char c mod 16)]
      else [c])"

definition encodeRFC3986 :: "string \<Rightarrow> string" where
  "encodeRFC3986 s = concat (map escape_sub_delim (encodeURIComponent s))"

text \<open>
  The two regular expressions of the worker, \<^verbatim>\<open>/Signature=([a-f0-9]+)/\<close> and
  \<^verbatim>\<open>/SignedHeaders=([^,\s]+)/\<close>, have the shape "a literal, then one or more
  characters of a class". \<^verbatim>\<open>s.match\<close> takes the leftmost position where the
  literal is followed by at least one character of the class, and captures the
  longest run of them.
\<close>

fun match_after :: "string \<Rightarrow> (char \<Rightarrow> bool) \<Rightarrow> string \<Rightarrow> string option" where
  "match_after lit cls [] = None"
| "match_after lit cls (c # cs) =
     (if prefix lit (c # cs)
      then (if takeWhile cls (drop (length lit) (c # cs)) \<noteq> []
            then Some (takeWhile cls (drop (length lit) (c # cs)))
            else match_after lit cls cs)
      else match_after lit cls cs)"

definition is_lower_hex :: "char \<Rightarrow> bool" where
  "is_lower_hex c =
     (let n = (of_char c :: nat) in (48 \<le> n \<and> n \<le> 57) \<or> (97 \<le> n \<and> n \<le> 102))"

definition match_Signature :: "string \<Rightarrow> string option" where
  "match_Signature authHeader = match_after ''Signature='' is_lower_hex authHeader"

definition match_SignedHeaders :: "string \<Rightarrow> string option" where
  "match_SignedHeaders authHeader =
     match_after ''SignedHeaders='' (\<lambda>c. c \<noteq> CHR '','' \<and> \<not> is_space c) authHeader"

text \<open>A \<^verbatim>\<open>map\<close> whose callback can throw: the first error ends it.\<close>

fun map_throwing :: "('a \<Rightarrow> js_error + 'b) \<Rightarrow> 'a list \<Rightarrow> js_error + 'b list" where
  "map_throwing f [] = Inr []"
| "map_throwing f (x # xs) =
     (case f x of
        Inl e \<Rightarrow> Inl e
      | Inr y \<Rightarrow> (case map_throwing f xs of Inl e \<Rightarrow> Inl e | Inr ys \<Rightarrow> Inr (y # ys)))"

text \<open>
  \<^verbatim>\<open>createCanonicalRequest\<close> (index.ts, lines 312-360), in the order of the source:
  the query string, the list of signed headers, the canonical headers, the payload
  hash. \<^verbatim>\<open>Array.prototype.sort\<close> is stable, and the comparator orders the pairs
  by key alone: this is \<^const>\<open>sort_key\<close> on the first component.
\<close>

definition canonicalParams :: "(string \<times> string) list \<Rightarrow> string" where
  "canonicalParams ps =
     join ''&''
       (map (\<lambda>(key, val). encodeRFC3986 key @ ''='' @ encodeRFC3986 val)
          (sort_key fst (filter (\<lambda>(key, val). key \<noteq> ''X-Amz-Signature'') ps)))"

text \<open>\<^verbatim>\<open>request.headers.get("Authorization") ?? ""\<close>.\<close>

definition authHeader_of :: "request \<Rightarrow> string" where
  "authHeader_of req = (case header (req_headers req) ''Authorization'' of None \<Rightarrow> [] | Some v \<Rightarrow> v)"

definition signedHeadersList :: "request \<Rightarrow> bool \<Rightarrow> string list" where
  "signedHeadersList req isQueryAuth =
     (if isQueryAuth then
        split_on CHR '';''
          (case searchParams_get (url_searchParams (req_url req)) ''X-Amz-SignedHeaders'' of
             None \<Rightarrow> ''host'' | Some v \<Rightarrow> v)
      else
        (case match_SignedHeaders (authHeader_of req) of
           Some m \<Rightarrow> split_on CHR '';'' m
         | None \<Rightarrow> [''host'']))"

definition hostHeader :: "url \<Rightarrow> string" where
  "hostHeader u =
     (let port = url_port u
      in if port \<noteq> [] \<and>
            \<not> ((url_protocol u = ''https:'' \<and> port = ''443'') \<or>
               (url_protocol u = ''http:'' \<and> port = ''80''))
         then url_hostname u @ '':'' @ port
         else url_hostname u)"

definition canonicalHeader :: "request \<Rightarrow> string \<Rightarrow> js_error + string" where
  "canonicalHeader req h =
     (let headerName = toLowerCase h
      in if headerName = ''host'' then Inr (headerName @ '':'' @ hostHeader (req_url req) @ [CHR 0x0A])
         else (case headers_get (req_headers req) headerName of
                 Inl e \<Rightarrow> Inl e
               | Inr v \<Rightarrow>
                   Inr (headerName @ '':'' @ (case v of None \<Rightarrow> [] | Some x \<Rightarrow> trim x)
                        @ [CHR 0x0A])))"

definition createCanonicalRequest :: "request \<Rightarrow> bool \<Rightarrow> js_error + string" where
  "createCanonicalRequest req isQueryAuth =
     (let u = req_url req;
          method = req_method req;
          canonicalUri = (if url_pathname u = [] then ''/'' else url_pathname u);
          params = canonicalParams (url_searchParams u);
          shl = signedHeadersList req isQueryAuth
      in case map_throwing (canonicalHeader req) shl of
           Inl e \<Rightarrow> Inl e
         | Inr hs \<Rightarrow>
             (let canonicalHeaders = concat hs;
                  signedHeaders = join '';'' shl;
                  payloadHash = (case header (req_headers req) ''x-amz-content-sha256'' of
                                   None \<Rightarrow> ''UNSIGNED-PAYLOAD'' | Some v \<Rightarrow> v)
              in Inr (join [CHR 0x0A]
                        [method, canonicalUri, params, canonicalHeaders, signedHeaders,
                         payloadHash])))"

text \<open>
  \<^verbatim>\<open>verifySignature\<close> (index.ts, lines 266-310), cut at its intermediate values:
  the authentication style, the algorithm token, the timestamp, the signature the
  code computes and the signature the caller supplied.
\<close>

definition isQueryAuth :: "request \<Rightarrow> bool" where
  "isQueryAuth req = searchParams_has (url_searchParams (req_url req)) ''X-Amz-Algorithm''"

definition algorithm_of :: "request \<Rightarrow> string" where
  "algorithm_of req =
     (if isQueryAuth req then
        (case searchParams_get (url_searchParams (req_url req)) ''X-Amz-Algorithm'' of
           None \<Rightarrow> [] | Some v \<Rightarrow> v)
      else (case split_on CHR '' '' (authHeader_of req) of [] \<Rightarrow> [] | w # _ \<Rightarrow> w))"

definition datetime_of :: "request \<Rightarrow> string" where
  "datetime_of req =
     (case (if isQueryAuth req
            then searchParams_get (url_searchParams (req_url req)) ''X-Amz-Date''
            else header (req_headers req) ''x-amz-date'') of
        None \<Rightarrow> [] | Some v \<Rightarrow> v)"

definition stringToSign :: "crypto \<Rightarrow> env \<Rightarrow> string \<Rightarrow> string \<Rightarrow> string" where
  "stringToSign c e datetime canonicalRequest =
     (let date = take 8 datetime;
          hashedCanonicalRequest = sha256 c canonicalRequest;
          credentialScope = date @ ''/'' @ REGION e @ ''/s3/aws4_request''
      in join [CHR 0x0A] [''AWS4-HMAC-SHA256'', datetime, credentialScope, hashedCanonicalRequest])"

definition signatureHex :: "crypto \<Rightarrow> env \<Rightarrow> string \<Rightarrow> string \<Rightarrow> string" where
  "signatureHex c e datetime canonicalRequest =
     (let date = take 8 datetime;
          signingKey = getSigningKey c (SECRET_KEY e) date (REGION e) ''s3'';
          signature = hmacSha256 c (Inr signingKey) (stringToSign c e datetime canonicalRequest)
      in bufToHex signature)"

definition expectedSignature :: "request \<Rightarrow> string" where
  "expectedSignature req =
     (if isQueryAuth req then
        (case searchParams_get (url_searchParams (req_url req)) ''X-Amz-Signature'' of
           None \<Rightarrow> [] | Some v \<Rightarrow> v)
      else (case match_Signature (authHeader_of req) of Some m \<Rightarrow> m | None \<Rightarrow> []))"

definition verifySignature :: "crypto \<Rightarrow> request \<Rightarrow> env \<Rightarrow> js_error + bool" where
  "verifySignature c req e =
     (let algorithm = algorithm_of req
      in if algorithm = [] \<or> \<not> str_includes algorithm ''AWS4-HMAC-SHA256'' then Inr False
         else
           (let datetime = datetime_of req
            in if datetime = [] then Inr False
               else (case createCanonicalRequest req (isQueryAuth req) of
                       Inl err \<Rightarrow> Inl err
                     | Inr canonicalRequest \<Rightarrow>
                         Inr (signatureHex c e datetime canonicalRequest = expectedSignature req))))"

section \<open>The Backblaze B2 backend\<close>

text \<open>
  The worker reaches the backend through \<^verbatim>\<open>client.fetch(url, init)\<close> of an
  \<^verbatim>\<open>AwsClient\<close> (library aws4fetch), which signs the request and sends it. A call
  either rejects with an error or resolves to a response. The backend is a
  parameter of the model; every call the handler makes is recorded, in order.
\<close>

record aws_client =
  accessKeyId :: string
  secretAccessKey :: string
  region :: string
  service :: string

record b2_call =
  call_method :: string
  call_url :: string
  call_headers :: "(string \<times> string) list"
  call_body :: "string option"

record b2_response =
  b2_status :: nat
  b2_headers :: headers
  b2_body :: "string option"

datatype b2_result = Rejects js_error | Resolves b2_response

type_synonym b2_fetch = "aws_client \<Rightarrow> b2_call \<Rightarrow> b2_result"

text \<open>\<^verbatim>\<open>response.ok\<close>, \<^verbatim>\<open>await response.text()\<close> and \<^verbatim>\<open>headers.get(name) || dflt\<close>.\<close>

definition ok :: "b2_response \<Rightarrow> bool" where
  "ok r = (200 \<le> b2_status r \<and> b2_status r \<le> 299)"

definition text_of :: "b2_response \<Rightarrow> string" where
  "text_of r = (case b2_body r of None \<Rightarrow> [] | Some t \<Rightarrow> t)"

definition header_or :: "headers \<Rightarrow> string \<Rightarrow> string \<Rightarrow> string" where
  "header_or h name dflt =
     (case header h name of None \<Rightarrow> dflt | Some v \<Rightarrow> if v = [] then dflt else v)"

definition object_url :: "string \<Rightarrow> string \<Rightarrow> string \<Rightarrow> string" where
  "object_url endpoint bucket objectKey = ''https://'' @ endpoint @ ''/'' @ bucket @ ''/'' @ objectKey"

text \<open>The calls without a body: \<^verbatim>\<open>client.fetch(url, { method })\<close>.\<close>

definition object_call :: "string \<Rightarrow> string \<Rightarrow> string \<Rightarrow> string \<Rightarrow> b2_call" where
  "object_call method endpoint bucket objectKey =
     \<lparr>call_method = method, call_url = object_url endpoint bucket objectKey,
      call_headers = [], call_body = None\<rparr>"

definition list_call :: "string \<Rightarrow> string \<Rightarrow> b2_call" where
  "list_call endpoint bucket =
     \<lparr>call_method = ''GET'', call_url = ''https://'' @ endpoint @ ''/'' @ bucket,
      call_headers = [], call_body = None\<rparr>"

definition upload_call :: "string \<Rightarrow> string \<Rightarrow> string \<Rightarrow> string \<Rightarrow> string \<Rightarrow> b2_call" where
  "upload_call endpoint bucket objectKey content contentType =
     \<lparr>call_method = ''PUT'', call_url = object_url endpoint bucket objectKey,
      call_headers = [(''Content-Type'', contentType)], call_body = Some content\<rparr>"

text \<open>\<^verbatim>\<open>uploadToB2\<close> (index.ts, lines 173-197); the result is \<^verbatim>\<open>etag\<close>, possibly undefined.\<close>

definition uploadToB2 ::
  "b2_fetch \<Rightarrow> aws_client \<Rightarrow> string \<Rightarrow> string \<Rightarrow> string \<Rightarrow> string option \<Rightarrow> string
     \<Rightarrow> (js_error + string option) \<times> b2_call list" where
  "uploadToB2 b2 client endpoint bucket objectKey body contentType =
     (case body of
        None \<Rightarrow> (Inl (Error ''Request body is required''), [])
      | Some content \<Rightarrow>
          (let call = upload_call endpoint bucket objectKey content contentType
           in case b2 client call of
                Rejects err \<Rightarrow> (Inl err, [call])
              | Resolves r \<Rightarrow>
                  if \<not> ok r
                  then (Inl (Error (''Upload failed: '' @ show_nat (b2_status r) @ '' '' @ text_of r)),
                        [call])
                  else (Inr (case header (b2_headers r) ''ETag'' of
                               None \<Rightarrow> None | Some v \<Rightarrow> if v = [] then None else Some v),
                        [call])))"

text \<open>\<^verbatim>\<open>downloadFromB2\<close> (index.ts, lines 199-216).\<close>

record file_stream =
  fs_body :: "string option"
  fs_contentType :: string
  fs_contentLength :: string
  fs_etag :: string

definition downloadFromB2 ::
  "b2_fetch \<Rightarrow> aws_client \<Rightarrow> string \<Rightarrow> string \<Rightarrow> string
     \<Rightarrow> (js_error + file_stream) \<times> b2_call list" where
  "downloadFromB2 b2 client endpoint bucket objectKey =
     (let call = object_call ''GET'' endpoint bucket objectKey
      in case b2 client call of
           Rejects err \<Rightarrow> (Inl err, [call])
         | Resolves r \<Rightarrow>
             if \<not> ok r
             then (Inl (Error (''Download failed: '' @ show_nat (b2_status r))), [call])
             else (Inr \<lparr>fs_body = b2_body r,
                        fs_contentType = header_or (b2_headers r) ''Content-Type'' ''application/octet-stream'',
                        fs_contentLength = header_or (b2_headers r) ''Content-Length'' ''0'',
                        fs_etag = header_or (b2_headers r) ''ETag'' [CHR 0x22, CHR 0x22]\<rparr>,
                   [call]))"

text \<open>\<^verbatim>\<open>deleteFromB2\<close> (index.ts, lines 218-228).\<close>

definition deleteFromB2 ::
  "b2_fetch \<Rightarrow> aws_client \<Rightarrow> string \<Rightarrow> string \<Rightarrow> string
     \<Rightarrow> (js_error + unit) \<times> b2_call list" where
  "deleteFromB2 b2 client endpoint bucket objectKey =
     (let call = object_call ''DELETE'' endpoint bucket objectKey
      in case b2 client call of
           Rejects err \<Rightarrow> (Inl err, [call])
         | Resolves r \<Rightarrow>
             if \<not> ok r
             then (Inl (Error (''Delete failed: '' @ show_nat (b2_status r))), [call])
             else (Inr (), [call]))"

text \<open>\<^verbatim>\<open>headB2Object\<close> (index.ts, lines 230-246).\<close>

definition headB2Object ::
  "b2_fetch \<Rightarrow> aws_client \<Rightarrow> string \<Rightarrow> string \<Rightarrow> string
     \<Rightarrow> (js_error + file_stream) \<times> b2_call list" where
  "headB2Object b2 client endpoint bucket objectKey =
     (let call = object_call ''HEAD'' endpoint bucket objectKey
      in case b2 client call of
           Rejects err \<Rightarrow> (Inl err, [call])
         | Resolves r \<Rightarrow>
             if \<not> ok r
             then (Inl (Error (''HEAD failed: '' @ show_nat (b2_status r))), [call])
             else (Inr \<lparr>fs_body = None,
                        fs_contentType = header_or (b2_headers r) ''Content-Type'' ''application/octet-stream'',
                        fs_contentLength = header_or (b2_headers r) ''Content-Length'' ''0'',
                        fs_etag = header_or (b2_headers r) ''ETag'' [CHR 0x22, CHR 0x22]\<rparr>,
                   [call]))"

text \<open>\<^verbatim>\<open>listB2Objects\<close> (index.ts, lines 248-260).\<close>

definition listB2Objects ::
  "b2_fetch \<Rightarrow> aws_client \<Rightarrow> string \<Rightarrow> string \<Rightarrow> (js_error + string) \<times> b2_call list" where
  "listB2Objects b2 client endpoint bucket =
     (let call = list_call endpoint bucket
      in case b2 client call of
           Rejects err \<Rightarrow> (Inl err, [call])
         | Resolves r \<Rightarrow>
             if \<not> ok r
             then (Inl (Error (''List failed: '' @ show_nat (b2_status r))), [call])
             else (Inr (text_of r), [call]))"

section \<open>The request handler\<close>

text \<open>
  \<^verbatim>\<open>JSON.stringify(result)\<close> for the object \<^verbatim>\<open>{ etag }\<close>: a property whose value is
  undefined is left out; a string is quoted, with the quote, the backslash and the
  control characters escaped.
\<close>

definition json_char :: "char \<Rightarrow> string" where
  "json_char c =
     (let n = (of_char c :: nat)
      in if n = 34 then [CHR 0x5C, CHR 0x22]
         else if n = 92 then [CHR 0x5C, CHR 0x5C]
         else if n = 8 then [CHR 0x5C, CHR ''b'']
         else if n = 12 then [CHR 0x5C, CHR ''f'']
         else if n = 10 then [CHR 0x5C, CHR ''n'']
         else if n = 13 then [CHR 0x5C, CHR ''r'']
         else if n = 9 then [CHR 0x5C, CHR ''t'']
         else if n < 32 then [CHR 0x5C, CHR ''u'', CHR ''0'', CHR ''0'', hex_digit (n div 16), hex_digit (n mod 16)]
         else [c])"

definition json_string :: "string \<Rightarrow> string" where
  "json_string s = [CHR 0x22] @ concat (map json_char s) @ [CHR 0x22]"

definition stringify_result :: "string option \<Rightarrow> string" where
  "stringify_result etag =
     (case etag of
        None \<Rightarrow> ''{}''
      | Some v \<Rightarrow> ''{'' @ json_string ''etag'' @ '':'' @ json_string v @ ''}'')"

text \<open>
  The inner \<^verbatim>\<open>catch\<close> of the GET, DELETE and HEAD branches (index.ts, lines 81-87,
  97-103 and 120-126) tests the message of the error it caught.
\<close>

definition is_not_found :: "js_error \<Rightarrow> bool" where
  "is_not_found err = (str_includes (message err) ''404'' \<or> str_includes (message err) ''NoSuchKey'')"

definition b2Client :: "env \<Rightarrow> aws_client" where
  "b2Client e =
     \<lparr>accessKeyId = B2_KEY_ID e, secretAccessKey = B2_APPLICATION_KEY e,
      region = (case B2_REGION e of None \<Rightarrow> ''us-west-000''
                | Some r \<Rightarrow> if r = [] then ''us-west-000'' else r),
      service = ''s3''\<rparr>"

text \<open>
  The 404 response of the three branches: body \<^verbatim>\<open>NoSuchKey\<close> for GET, no body for
  DELETE and HEAD.
\<close>

definition not_found_response :: "string \<Rightarrow> response" where
  "not_found_response method =
     \<lparr>status = 404, resp_headers = [],
      resp_body = (if method = ''GET'' then Some ''NoSuchKey'' else None)\<rparr>"

text \<open>The word that opens the message of a failed call, per method.\<close>

definition failure_word :: "string \<Rightarrow> string" where
  "failure_word method =
     (if method = ''GET'' then ''Download'' else if method = ''DELETE'' then ''Delete'' else ''HEAD'')"

text \<open>The branch for PUT and POST (index.ts, lines 42-57).\<close>

definition fetch_upload ::
  "b2_fetch \<Rightarrow> request \<Rightarrow> env \<Rightarrow> string \<Rightarrow> string \<Rightarrow> (js_error + response) \<times> b2_call list" where
  "fetch_upload b2 req e bucket objectKey =
     (if objectKey = []
      then (Inr \<lparr>status = 400, resp_headers = [], resp_body = Some ''Object key required''\<rparr>, [])
      else
        (let contentType = header_or (req_headers req) ''Content-Type'' ''application/octet-stream''
         in case uploadToB2 b2 (b2Client e) (B2_ENDPOINT e) bucket objectKey (req_body req) contentType of
              (Inl err, calls) \<Rightarrow> (Inl err, calls)
            | (Inr etag, calls) \<Rightarrow>
                (Inr \<lparr>status = 200,
                      resp_headers = [(''Content-Type'', ''application/json''),
                                      (''ETag'', (case etag of None \<Rightarrow> [] | Some v \<Rightarrow> v))],
                      resp_body = Some (stringify_result etag)\<rparr>,
                 calls)))"

text \<open>The branch for GET (index.ts, lines 58-87): the listing, or the download.\<close>

definition fetch_get ::
  "b2_fetch \<Rightarrow> env \<Rightarrow> string \<Rightarrow> string \<Rightarrow> (js_error + response) \<times> b2_call list" where
  "fetch_get b2 e bucket objectKey =
     (if objectKey = []
      then (case listB2Objects b2 (b2Client e) (B2_ENDPOINT e) bucket of
              (Inl err, calls) \<Rightarrow> (Inl err, calls)
            | (Inr files, calls) \<Rightarrow>
                (Inr \<lparr>status = 200, resp_headers = [(''Content-Type'', ''application/xml'')],
                      resp_body = Some files\<rparr>,
                 calls))
      else (case downloadFromB2 b2 (b2Client e) (B2_ENDPOINT e) bucket objectKey of
              (Inr fileStream, calls) \<Rightarrow>
                (Inr \<lparr>status = 200,
                      resp_headers = [(''Content-Type'', fs_contentType fileStream),
                                      (''Content-Length'', fs_contentLength fileStream),
                                      (''Cache-Control'', ''s-maxage=300, no-store''),
                                      (''ETag'', fs_etag fileStream)],
                      resp_body = fs_body fileStream\<rparr>,
                 calls)
            | (Inl err, calls) \<Rightarrow>
                if is_not_found err
                then (Inr \<lparr>status = 404, resp_headers = [], resp_body = Some ''NoSuchKey''\<rparr>, calls)
                else (Inl err, calls)))"

text \<open>The branch for DELETE (index.ts, lines 88-103).\<close>

definition fetch_delete ::
  "b2_fetch \<Rightarrow> env \<Rightarrow> string \<Rightarrow> string \<Rightarrow> (js_error + response) \<times> b2_call list" where
  "fetch_delete b2 e bucket objectKey =
     (if objectKey = []
      then (Inr \<lparr>status = 400, resp_headers = [], resp_body = Some ''Object key required''\<rparr>, [])
      else (case deleteFromB2 b2 (b2Client e) (B2_ENDPOINT e) bucket objectKey of
              (Inr _, calls) \<Rightarrow>
                (Inr \<lparr>status = 204, resp_headers = [], resp_body = None\<rparr>, calls)
            | (Inl err, calls) \<Rightarrow>
                if is_not_found err
                then (Inr \<lparr>status = 404, resp_headers = [], resp_body = None\<rparr>, calls)
                else (Inl err, calls)))"

text \<open>The branch for HEAD (index.ts, lines 104-127).\<close>

definition fetch_head ::
  "b2_fetch \<Rightarrow> env \<Rightarrow> string \<Rightarrow> string \<Rightarrow> (js_error + response) \<times> b2_call list" where
  "fetch_head b2 e bucket objectKey =
     (if objectKey = []
      then (Inr \<lparr>status = 400, resp_headers = [], resp_body = None\<rparr>, [])
      else (case headB2Object b2 (b2Client e) (B2_ENDPOINT e) bucket objectKey of
              (Inr metadata, calls) \<Rightarrow>
                (Inr \<lparr>status = 200,
                      resp_headers = [(''Content-Type'', fs_contentType metadata),
                                      (''Content-Length'', fs_contentLength metadata),
                                      (''ETag'', fs_etag metadata)],
                      resp_body = None\<rparr>,
                 calls)
            | (Inl err, calls) \<Rightarrow>
                if is_not_found err
                then (Inr \<lparr>status = 404, resp_headers = [], resp_body = None\<rparr>, calls)
                else (Inl err, calls)))"

text \<open>
  The body of the outer \<^verbatim>\<open>try\<close> (index.ts, lines 11-129): \<open>Inl\<close> is an error that
  leaves it, \<open>Inr\<close> a response it returns; the second component lists the backend
  calls made.
\<close>

definition fetch_try ::
  "crypto \<Rightarrow> b2_fetch \<Rightarrow> request \<Rightarrow> env \<Rightarrow> (js_error + response) \<times> b2_call list" where
  "fetch_try c b2 req e =
     (if req_method req = ''OPTIONS''
      then (Inr \<lparr>status = 204, resp_headers = [], resp_body = None\<rparr>, [])
      else
        (let method = req_method req;
             bucket = bucket_of (url_pathname (req_url req));
             objectKey = objectKey_of (url_pathname (req_url req))
         in if \<not> isAllowedBucket bucket e
            then (Inr \<lparr>status = 403, resp_headers = [],
                       resp_body = Some ''Access denied to this bucket''\<rparr>, [])
            else (case verifySignature c req e of
                    Inl err \<Rightarrow> (Inl err, [])
                  | Inr isValid \<Rightarrow>
                      if \<not> isValid
                      then (Inr \<lparr>status = 403, resp_headers = [],
                                 resp_body = Some ''Invalid Signature''\<rparr>, [])
                      else if method = ''PUT'' \<or> method = ''POST''
                        then fetch_upload b2 req e bucket objectKey
                      else if method = ''GET'' then fetch_get b2 e bucket objectKey
                      else if method = ''DELETE'' then fetch_delete b2 e bucket objectKey
                      else if method = ''HEAD'' then fetch_head b2 e bucket objectKey
                      else (Inr \<lparr>status = 405, resp_headers = [],
                                 resp_body = Some ''Method not allowed''\<rparr>, []))))"

text \<open>
  \<^verbatim>\<open>fetch\<close> (index.ts, lines 9-135): the outer \<^verbatim>\<open>catch\<close> turns an error into the
  response 500 whose body is the message.
\<close>

definition fetch :: "crypto \<Rightarrow> b2_fetch \<Rightarrow> request \<Rightarrow> env \<Rightarrow> response \<times> b2_call list" where
  "fetch c b2 req e =
     (case fetch_try c b2 req e of
        (Inl err, calls) \<Rightarrow>
          (\<lparr>status = 500, resp_headers = [], resp_body = Some (message err)\<rparr>, calls)
      | (Inr resp, calls) \<Rightarrow> (resp, calls))"

section \<open>SHA-256 and HMAC, for concrete requests\<close>

text \<open>
  The theorems below hold for every pair of digest and signing functions. To state
  them at concrete requests, this section writes out the functions the Workers
  runtime provides: SHA-256 as FIPS 180-4 defines it, on 32-bit words kept as
  integers in \<open>0..<2 ^ 32\<close> with the wrap-around of the addition written out
  (the round constants and the initial hash value are given in decimal), and HMAC as RFC 2104 defines it, with block size 64.
\<close>

definition add32 :: "int \<Rightarrow> int \<Rightarrow> int" where
  "add32 a b = (a + b) mod 4294967296"

definition rotr :: "nat \<Rightarrow> int \<Rightarrow> int" where
  "rotr n x = x div 2 ^ n + (x mod 2 ^ n) * 2 ^ (32 - n)"

definition Ch :: "int \<Rightarrow> int \<Rightarrow> int \<Rightarrow> int" where
  "Ch x y z = (x AND y) XOR ((4294967295 - x) AND z)"

definition Maj :: "int \<Rightarrow> int \<Rightarrow> int \<Rightarrow> int" where
  "Maj x y z = (x AND y) XOR (x AND z) XOR (y AND z)"

definition Sigma0 :: "int \<Rightarrow> int" where
  "Sigma0 x = rotr 2 x XOR rotr 13 x XOR rotr 22 x"

definition Sigma1 :: "int \<Rightarrow> int" where
  "Sigma1 x = rotr 6 x XOR rotr 11 x XOR rotr 25 x"

definition sigma0 :: "int \<Rightarrow> int" where
  "sigma0 x = rotr 7 x XOR rotr 18 x XOR (x div 2 ^ 3)"

definition sigma1 :: "int \<Rightarrow> int" where
  "sigma1 x = rotr 17 x XOR rotr 19 x XOR (x div 2 ^ 10)"

definition K256 :: "int list" where
  "K256 =
    [1116352408, 1899447441, 3049323471, 3921009573, 961987163, 1508970993, 2453635748, 2870763221,
     3624381080, 310598401, 607225278, 1426881987, 1925078388, 2162078206, 2614888103, 3248222580,
     3835390401, 4022224774, 264347078, 604807628, 770255983, 1249150122, 1555081692, 1996064986,
     2554220882, 2821834349, 2952996808, 3210313671, 3336571891, 3584528711, 113926993, 338241895,
     666307205, 773529912, 1294757372, 1396182291, 1695183700, 1986661051, 2177026350, 2456956037,
     2730485921, 2820302411, 3259730800, 3345764771, 3516065817, 3600352804, 4094571909, 275423344,
     430227734, 506948616, 659060556, 883997877, 958139571, 1322822218, 1537002063, 1747873779,
     1955562222, 2024104815, 2227730452, 2361852424, 2428436474, 2756734187, 3204031479, 3329325298]"

definition H256 :: "int list" where
  "H256 =
    [1779033703, 3144134277, 1013904242, 2773480762, 1359893119, 2600822924, 528734635, 1541459225]"

text \<open>
  One round on the working variables \<open>a..h\<close>, and the message schedule as a window
  of sixteen words that moves by one word per round.
\<close>

fun next_vars :: "int \<Rightarrow> int \<Rightarrow> int \<Rightarrow> int list \<Rightarrow> int list" where
  "next_vars t1 t2 dummy [a, b, c, d, e, f, g, h] = [add32 t1 t2, a, b, c, add32 d t1, e, f, g]"
| "next_vars t1 t2 dummy s = s"

fun round_vars :: "int \<Rightarrow> int \<Rightarrow> int list \<Rightarrow> int list" where
  "round_vars k w [a, b, c, d, e, f, g, h] =
     next_vars (add32 (add32 (add32 (add32 h (Sigma1 e)) (Ch e f g)) k) w)
       (add32 (Sigma0 a) (Maj a b c)) 0 [a, b, c, d, e, f, g, h]"
| "round_vars k w s = s"

fun next_window :: "int list \<Rightarrow> int list" where
  "next_window [w0, w1, w2, w3, w4, w5, w6, w7, w8, w9, w10, w11, w12, w13, w14, w15] =
     [w1, w2, w3, w4, w5, w6, w7, w8, w9, w10, w11, w12, w13, w14, w15,
      add32 (add32 (add32 (sigma1 w14) w9) (sigma0 w1)) w0]"
| "next_window w = w"

fun rounds :: "int list \<Rightarrow> int list \<Rightarrow> int list \<Rightarrow> int list" where
  "rounds [] w s = s"
| "rounds (k # ks) w s =
     rounds ks (next_window w) (round_vars k (case w of [] \<Rightarrow> 0 | w0 # _ \<Rightarrow> w0) s)"

definition compress :: "int list \<Rightarrow> int list \<Rightarrow> int list" where
  "compress s block = map2 add32 s (rounds K256 block s)"

fun be_words :: "int list \<Rightarrow> int list" where
  "be_words (b0 # b1 # b2 # b3 # bs) = (((b0 * 256 + b1) * 256 + b2) * 256 + b3) # be_words bs"
| "be_words bs = []"

fun hash_blocks :: "int list \<Rightarrow> int list \<Rightarrow> int list" where
  "hash_blocks s (w0 # w1 # w2 # w3 # w4 # w5 # w6 # w7 # w8 # w9 # w10 # w11 # w12 # w13 # w14 # w15 # ws) =
     hash_blocks (compress s [w0, w1, w2, w3, w4, w5, w6, w7, w8, w9, w10, w11, w12, w13, w14, w15]) ws"
| "hash_blocks s ws = s"

definition be_bytes :: "nat \<Rightarrow> int \<Rightarrow> int list" where
  "be_bytes n x = map (\<lambda>i. (x div 256 ^ i) mod 256) (rev [0..<n])"

definition pad :: "int list \<Rightarrow> int list" where
  "pad m = m @ [128] @ replicate ((119 - length m mod 64) mod 64) 0 @ be_bytes 8 (8 * int (length m))"

definition sha256_digest :: "byte list \<Rightarrow> byte list" where
  "sha256_digest m =
     map of_int (concat (map (be_bytes 4) (hash_blocks H256 (be_words (pad (map uint m))))))"

definition hmac_sha256 :: "byte list \<Rightarrow> byte list \<Rightarrow> byte list" where
  "hmac_sha256 key m =
     (let k0 = (if 64 < length key then sha256_digest key else key);
          k = k0 @ replicate (64 - length k0) 0
      in sha256_digest (map (\<lambda>b. b XOR 0x5c) k @ sha256_digest (map (\<lambda>b. b XOR 0x36) k @ m)))"

definition web_crypto :: crypto where
  "web_crypto = \<lparr>subtle_digest = sha256_digest, subtle_sign = hmac_sha256\<rparr>"

section \<open>Concrete requests\<close>

text \<open>The configuration of the test suite (test/s3.test.ts, \<^verbatim>\<open>ENV\<close>).\<close>

definition test_env :: env where
  "test_env =
     \<lparr>ACCESS_KEY = ''test-access-key'', SECRET_KEY = ''test-secret-key'', REGION = ''auto'',
      B2_KEY_ID = ''test-b2-key-id'', B2_APPLICATION_KEY = ''test-b2-app-key'',
      B2_ENDPOINT = ''s3.us-west-000.backblazeb2.com'', B2_REGION = Some ''us-west-000'',
      ALLOWED_BUCKETS = Some ''test-bucket,empty-bucket,my-bucket''\<rparr>"

definition no_headers :: headers where
  "no_headers = (\<lambda>name. None)"

text \<open>
  A presigned URL before its signature is added: the query parameters of query
  authentication, on the host the tests use.
\<close>

definition query_params :: "(string \<times> string) list" where
  "query_params =
     [(''X-Amz-Algorithm'', ''AWS4-HMAC-SHA256''),
      (''X-Amz-Credential'', ''test-access-key/20240101/auto/s3/aws4_request''),
      (''X-Amz-Date'', ''20240101T000000Z''),
      (''X-Amz-Expires'', ''3600''),
      (''X-Amz-SignedHeaders'', ''host'')]"

definition unsigned_request :: "string \<Rightarrow> string \<Rightarrow> request" where
  "unsigned_request method pathname =
     \<lparr>req_method = method,
      req_url = \<lparr>url_protocol = ''https:'', url_hostname = ''s3-api.example.com'', url_port = [],
                 url_pathname = pathname, url_searchParams = query_params\<rparr>,
      req_headers = no_headers, req_body = None\<rparr>"

text \<open>
  What a caller holding the secret does to presign a request: it appends the
  parameter \<^verbatim>\<open>X-Amz-Signature\<close>, the signature of the request without it.
\<close>

definition with_param :: "request \<Rightarrow> string \<Rightarrow> string \<Rightarrow> request" where
  "with_param req k v =
     req\<lparr>req_url := (req_url req)\<lparr>url_searchParams := url_searchParams (req_url req) @ [(k, v)]\<rparr>\<rparr>"

definition with_params :: "request \<Rightarrow> (string \<times> string) list \<Rightarrow> request" where
  "with_params req ps = req\<lparr>req_url := (req_url req)\<lparr>url_searchParams := ps\<rparr>\<rparr>"

definition presign :: "crypto \<Rightarrow> env \<Rightarrow> request \<Rightarrow> request" where
  "presign c e req =
     (case createCanonicalRequest req True of
        Inl err \<Rightarrow> req
      | Inr canonicalRequest \<Rightarrow>
          with_param req ''X-Amz-Signature'' (signatureHex c e (datetime_of req) canonicalRequest))"

definition signed_request :: "string \<Rightarrow> string \<Rightarrow> request" where
  "signed_request method pathname = presign web_crypto test_env (unsigned_request method pathname)"


text \<open>
  Two presigned requests with an unusual query string: one whose algorithm
  parameter is longer than the identifier, signed by a caller that holds the secret;
  and one whose list of signed headers names \<^verbatim>\<open>x amz date\<close>, which is not a header
  name.
\<close>

definition longer_algorithm_request :: request where
  "longer_algorithm_request =
     presign web_crypto test_env
       (with_params (unsigned_request ''GET'' ''/test-bucket/a.txt'')
          [(''X-Amz-Algorithm'', ''AWS4-HMAC-SHA256-V2''),
           (''X-Amz-Date'', ''20240101T000000Z''),
           (''X-Amz-SignedHeaders'', ''host'')])"

definition bad_header_name_request :: request where
  "bad_header_name_request =
     with_params (unsigned_request ''GET'' ''/test-bucket/a.txt'')
       [(''X-Amz-Algorithm'', ''AWS4-HMAC-SHA256''),
        (''X-Amz-Date'', ''20240101T000000Z''),
        (''X-Amz-SignedHeaders'', ''host;x amz date''),
        (''X-Amz-Signature'', ''00'')]"


text \<open>Replacing the value of the parameter \<^verbatim>\<open>X-Amz-Signature\<close> of a presigned request.\<close>

definition replace_signature :: "string \<Rightarrow> request \<Rightarrow> request" where
  "replace_signature s req =
     with_params req
       (map (\<lambda>(k, v). if k = ''X-Amz-Signature'' then (k, s) else (k, v))
          (url_searchParams (req_url req)))"






text \<open>
  Header authentication: the \<^verbatim>\<open>Authorization\<close> header a signing client writes, and
  a request that carries the two \<^verbatim>\<open>x-amz\<close> headers such a client adds.
\<close>

definition authorization_value :: "string \<Rightarrow> string \<Rightarrow> string \<Rightarrow> string" where
  "authorization_value credential signedHeaders signature =
     ''AWS4-HMAC-SHA256 Credential='' @ credential @ '', SignedHeaders='' @ signedHeaders
       @ '', Signature='' @ signature"

definition with_authorization :: "request \<Rightarrow> string \<Rightarrow> request" where
  "with_authorization req v = req\<lparr>req_headers := (req_headers req)(''authorization'' := Some v)\<rparr>"

definition header_request :: request where
  "header_request =
     \<lparr>req_method = ''GET'',
      req_url = \<lparr>url_protocol = ''https:'', url_hostname = ''s3-api.example.com'', url_port = [],
                 url_pathname = ''/test-bucket/a.txt'', url_searchParams = []\<rparr>,
      req_headers = no_headers(''x-amz-date'' := Some ''20240101T000000Z'',
                               ''x-amz-content-sha256'' := Some ''UNSIGNED-PAYLOAD''),
      req_body = None\<rparr>"

definition header_auth_request :: "string \<Rightarrow> string \<Rightarrow> request" where
  "header_auth_request credential signature =
     with_authorization header_request
       (authorization_value credential ''host;x-amz-content-sha256;x-amz-date'' signature)"


text \<open>
  Backends: every object is missing; the service is down; the call itself fails,
  the backend reporting a missing key.
\<close>

definition b2_not_found :: b2_fetch where
  "b2_not_found client call = Resolves \<lparr>b2_status = 404, b2_headers = no_headers, b2_body = None\<rparr>"

definition b2_unavailable :: b2_fetch where
  "b2_unavailable client call =
     Resolves \<lparr>b2_status = 503, b2_headers = no_headers, b2_body = Some ''slow down''\<rparr>"

definition b2_no_such_key :: b2_fetch where
  "b2_no_such_key client call = Rejects (Error ''NoSuchKey: the key does not exist'')"

text \<open>
  A backend that cannot be reached: the call fails with a network error, and the
  message of the error happens to contain the digits \<^verbatim>\<open>404\<close>.
\<close>

definition b2_timeout :: b2_fetch where
  "b2_timeout client call = Rejects (Error ''network timeout after 4040 ms'')"

definition b2_listing :: b2_fetch where
  "b2_listing client call =
     Resolves \<lparr>b2_status = 200, b2_headers = no_headers, b2_body = Some ''<ListBucketResult/>''\<rparr>"

section \<open>Facts about splitting and path parsing\<close>

lemma split_on_not_Nil: "split_on sep s \<noteq> []"
  by (induction s) (auto split: list.splits)

lemma split_on_append:
  "split_on sep (xs @ sep # ys) = split_on sep xs @ split_on sep ys"
proof (induction xs)
  case Nil
  show ?case by simp
next
  case (Cons c xs)
  obtain w ws where w: "split_on sep xs = w # ws"
    using split_on_not_Nil [of sep xs] by (cases "split_on sep xs") auto
  with Cons show ?case by simp
qed

lemma split_on_no_sep: "sep \<notin> set s \<Longrightarrow> split_on sep s = [s]"
  by (induction s) auto

lemma pathParts_Nil: "pathParts [] = []"
  by (simp add: pathParts_def)

lemma pathParts_append:
  "pathParts (xs @ CHR ''/'' # ys) = pathParts xs @ pathParts ys"
  by (simp add: pathParts_def split_on_append)

lemma pathParts_segment: "s \<noteq> [] \<Longrightarrow> CHR ''/'' \<notin> set s \<Longrightarrow> pathParts s = [s]"
  by (simp add: pathParts_def split_on_no_sep)

lemma pathParts_join:
  "\<forall>s \<in> set segs. s \<noteq> [] \<and> CHR ''/'' \<notin> set s \<Longrightarrow> pathParts (join ''/'' segs) = segs"
proof (induction segs rule: induct_list012)
  case 1
  show ?case by (simp add: pathParts_Nil)
next
  case (2 x)
  then show ?case by (simp add: pathParts_segment)
next
  case (3 x y ys)
  then show ?case by (simp add: pathParts_append pathParts_segment)
qed

lemma pathParts_leading: "pathParts (CHR ''/'' # p) = pathParts p"
  using pathParts_append [of "[]" p] by (simp add: pathParts_Nil)

lemma pathParts_trailing: "pathParts (p @ ''/'') = pathParts p"
  using pathParts_append [of p "[]"] by (simp add: pathParts_Nil)

lemma pathParts_repeated: "pathParts (p @ ''//'' @ q) = pathParts (p @ ''/'' @ q)"
  using pathParts_append [of p "CHR ''/'' # q"] pathParts_append [of p q] pathParts_leading [of q]
  by simp

section \<open>Signing a request\<close>

lemma map_of_snoc_other: "k' \<noteq> k \<Longrightarrow> map_of (ps @ [(k, v)]) k' = map_of ps k'"
  by (induction ps) auto

lemma map_of_snoc_fresh: "map_of ps k = None \<Longrightarrow> map_of (ps @ [(k, v)]) k = Some v"
  by (induction ps) (auto split: if_splits)

lemma canonicalParams_signature [simp]:
  "canonicalParams (ps @ [(''X-Amz-Signature'', v)]) = canonicalParams ps"
  by (simp add: canonicalParams_def)

lemma with_param_fields [simp]:
  "req_method (with_param req k v) = req_method req"
  "req_headers (with_param req k v) = req_headers req"
  "req_body (with_param req k v) = req_body req"
  "url_protocol (req_url (with_param req k v)) = url_protocol (req_url req)"
  "url_hostname (req_url (with_param req k v)) = url_hostname (req_url req)"
  "url_port (req_url (with_param req k v)) = url_port (req_url req)"
  "url_pathname (req_url (with_param req k v)) = url_pathname (req_url req)"
  "url_searchParams (req_url (with_param req k v)) = url_searchParams (req_url req) @ [(k, v)]"
  by (simp_all add: with_param_def)

lemma isQueryAuth_with_signature [simp]:
  "isQueryAuth (with_param req ''X-Amz-Signature'' v) = isQueryAuth req"
  by (simp add: isQueryAuth_def searchParams_has_def map_of_snoc_other del: map_of_append)

lemma algorithm_of_with_signature [simp]:
  "algorithm_of (with_param req ''X-Amz-Signature'' v) = algorithm_of req"
  by (simp add: algorithm_of_def searchParams_get_def map_of_snoc_other authHeader_of_def
        del: map_of_append)

lemma datetime_of_with_signature [simp]:
  "datetime_of (with_param req ''X-Amz-Signature'' v) = datetime_of req"
  by (simp add: datetime_of_def searchParams_get_def map_of_snoc_other del: map_of_append)

lemma hostHeader_with_param [simp]:
  "hostHeader (req_url (with_param req k v)) = hostHeader (req_url req)"
  by (simp add: hostHeader_def Let_def)

lemma canonicalHeader_with_param [simp]:
  "canonicalHeader (with_param req k v) = canonicalHeader req"
  by (rule ext) (simp add: canonicalHeader_def Let_def)

lemma signedHeadersList_with_signature [simp]:
  "signedHeadersList (with_param req ''X-Amz-Signature'' v) q = signedHeadersList req q"
  by (simp add: signedHeadersList_def searchParams_get_def map_of_snoc_other authHeader_of_def
        del: map_of_append)

lemma createCanonicalRequest_with_signature [simp]:
  "createCanonicalRequest (with_param req ''X-Amz-Signature'' v) q = createCanonicalRequest req q"
  by (simp add: createCanonicalRequest_def Let_def split: sum.splits)

lemma expectedSignature_with_signature:
  "isQueryAuth req \<Longrightarrow> searchParams_get (url_searchParams (req_url req)) ''X-Amz-Signature'' = None
   \<Longrightarrow> expectedSignature (with_param req ''X-Amz-Signature'' v) = v"
  by (simp add: expectedSignature_def searchParams_get_def map_of_snoc_fresh del: map_of_append)

lemma presign_valid:
  assumes "isQueryAuth req"
    and "searchParams_get (url_searchParams (req_url req)) ''X-Amz-Signature'' = None"
    and "str_includes (algorithm_of req) ''AWS4-HMAC-SHA256''"
    and "datetime_of req \<noteq> []"
    and "createCanonicalRequest req True = Inr cr"
  shows "verifySignature c (presign c e req) e = Inr True"
proof -
  have alg: "algorithm_of req \<noteq> []"
    using assms(3) by (cases "algorithm_of req") auto
  show ?thesis
    using assms alg
    by (simp add: presign_def verifySignature_def expectedSignature_with_signature)
qed

lemma presign_fields [simp]:
  "req_method (presign c e req) = req_method req"
  "req_headers (presign c e req) = req_headers req"
  "req_body (presign c e req) = req_body req"
  "url_pathname (req_url (presign c e req)) = url_pathname (req_url req)"
  by (simp_all add: presign_def split: sum.splits)

lemma unsigned_request_fields [simp]:
  "req_method (unsigned_request m p) = m"
  "req_headers (unsigned_request m p) = no_headers"
  "req_body (unsigned_request m p) = None"
  "url_pathname (req_url (unsigned_request m p)) = p"
  "url_searchParams (req_url (unsigned_request m p)) = query_params"
  by (simp_all add: unsigned_request_def)

lemma unsigned_request_canonical:
  "\<exists>cr. createCanonicalRequest (unsigned_request m p) True = Inr cr"
  by (simp add: createCanonicalRequest_def Let_def signedHeadersList_def searchParams_get_def
      query_params_def canonicalHeader_def toLowerCase_def lower_char_def)

lemma signed_request_valid:
  "verifySignature web_crypto (signed_request m p) test_env = Inr True"
proof -
  obtain cr where cr: "createCanonicalRequest (unsigned_request m p) True = Inr cr"
    using unsigned_request_canonical by blast
  have q: "isQueryAuth (unsigned_request m p)"
    by (simp add: isQueryAuth_def searchParams_has_def query_params_def)
  have nosig: "searchParams_get (url_searchParams (req_url (unsigned_request m p))) ''X-Amz-Signature'' = None"
    by (simp add: searchParams_get_def query_params_def)
  have alg: "str_includes (algorithm_of (unsigned_request m p)) ''AWS4-HMAC-SHA256''"
    using q by (simp add: algorithm_of_def searchParams_get_def query_params_def)
  have dt: "datetime_of (unsigned_request m p) \<noteq> []"
    using q by (simp add: datetime_of_def searchParams_get_def query_params_def)
  show ?thesis
    unfolding signed_request_def by (rule presign_valid [OF q nosig alg dt cr])
qed

lemma signed_request_fields [simp]:
  "req_method (signed_request m p) = m"
  "req_headers (signed_request m p) = no_headers"
  "req_body (signed_request m p) = None"
  "url_pathname (req_url (signed_request m p)) = p"
  by (simp_all add: signed_request_def)

lemma test_env_allowed:
  "allowedBuckets ''test-bucket,empty-bucket,my-bucket'' = [''test-bucket'', ''empty-bucket'', ''my-bucket'']"
  by (simp add: allowedBuckets_def trim_def is_space_def)

lemma test_env_isAllowed:
  "isAllowedBucket b test_env = (b \<in> {''test-bucket'', ''empty-bucket'', ''my-bucket''})"
  by (simp add: isAllowedBucket_def test_env_def test_env_allowed)

lemma map_throwing_Inr:
  "(\<forall>x \<in> set xs. \<exists>y. f x = Inr y) \<Longrightarrow> \<exists>ys. map_throwing f xs = Inr ys"
  by (induction xs) auto

lemma canonicalHeader_valid:
  "toLowerCase h = ''host'' \<or> valid_header_name (toLowerCase h) \<Longrightarrow> \<exists>y. canonicalHeader req h = Inr y"
  by (auto simp: canonicalHeader_def headers_get_def Let_def)

lemma createCanonicalRequest_valid:
  assumes "\<forall>h \<in> set (signedHeadersList req q). toLowerCase h = ''host'' \<or> valid_header_name (toLowerCase h)"
  shows "\<exists>cr. createCanonicalRequest req q = Inr cr"
proof -
  obtain hs where "map_throwing (canonicalHeader req) (signedHeadersList req q) = Inr hs"
    using map_throwing_Inr [of "signedHeadersList req q" "canonicalHeader req"]
      canonicalHeader_valid assms by blast
  then show ?thesis
    by (simp add: createCanonicalRequest_def Let_def)
qed

lemma filter_replace_signature:
  "filter (\<lambda>(key, val). key \<noteq> ''X-Amz-Signature'')
     (map (\<lambda>(k, v). if k = ''X-Amz-Signature'' then (k, s) else (k, v)) ps)
   = filter (\<lambda>(key, val). key \<noteq> ''X-Amz-Signature'') ps"
  by (induction ps) auto

lemma map_of_replace_other:
  "k' \<noteq> ''X-Amz-Signature'' \<Longrightarrow>
   map_of (map (\<lambda>(k, v). if k = ''X-Amz-Signature'' then (k, s) else (k, v)) ps) k' = map_of ps k'"
  by (induction ps) auto




lemma ascii_lower_lower_char [simp]: "ascii_lower (lower_char ch) = lower_char ch"
  by (auto simp: ascii_lower_def lower_char_def Let_def)

lemma ascii_lower_toLowerCase [simp]: "map ascii_lower (toLowerCase h) = toLowerCase h"
  by (simp add: toLowerCase_def)


lemma with_authorization_parts [simp]:
  "req_method (with_authorization req a) = req_method req"
  "req_url (with_authorization req a) = req_url req"
  "isQueryAuth (with_authorization req a) = isQueryAuth req"
  "authHeader_of (with_authorization req a) = a"
  "header (req_headers (with_authorization req a)) ''x-amz-date'' = header (req_headers req) ''x-amz-date''"
  "header (req_headers (with_authorization req a)) ''x-amz-content-sha256''
     = header (req_headers req) ''x-amz-content-sha256''"
  by (simp_all add: with_authorization_def isQueryAuth_def authHeader_of_def header_def
      ascii_lower_def char_of_eq_iff)



section \<open>Facts about the handler\<close>

lemma bucket_test_a: "bucket_of ''/test-bucket/a.txt'' = ''test-bucket''"
  by (simp add: bucket_of_def pathParts_def)

lemma key_test_a: "objectKey_of ''/test-bucket/a.txt'' = ''a.txt''"
  by (simp add: objectKey_of_def pathParts_def)

lemma bucket_test: "bucket_of ''/test-bucket'' = ''test-bucket''"
  by (simp add: bucket_of_def pathParts_def)

lemma key_test: "objectKey_of ''/test-bucket'' = []"
  by (simp add: objectKey_of_def pathParts_def)

lemma body_update_parts [simp]:
  "isQueryAuth (req\<lparr>req_body := b\<rparr>) = isQueryAuth req"
  "authHeader_of (req\<lparr>req_body := b\<rparr>) = authHeader_of req"
  "algorithm_of (req\<lparr>req_body := b\<rparr>) = algorithm_of req"
  "datetime_of (req\<lparr>req_body := b\<rparr>) = datetime_of req"
  "expectedSignature (req\<lparr>req_body := b\<rparr>) = expectedSignature req"
  "signedHeadersList (req\<lparr>req_body := b\<rparr>) q = signedHeadersList req q"
  "canonicalHeader (req\<lparr>req_body := b\<rparr>) = canonicalHeader req"
  by (simp_all add: isQueryAuth_def authHeader_of_def algorithm_of_def datetime_of_def
      expectedSignature_def signedHeadersList_def canonicalHeader_def fun_eq_iff Let_def)

lemma createCanonicalRequest_body [simp]:
  "createCanonicalRequest (req\<lparr>req_body := b\<rparr>) q = createCanonicalRequest req q"
  by (simp add: createCanonicalRequest_def Let_def split: sum.splits)

lemma verifySignature_body [simp]:
  "verifySignature c (req\<lparr>req_body := b\<rparr>) e = verifySignature c req e"
  by (simp add: verifySignature_def Let_def split: sum.splits)

lemma allowedBuckets_blank:
  "list_all (\<lambda>x. trim x = []) (split_on CHR '','' s) \<Longrightarrow> allowedBuckets s = []"
  by (simp add: allowedBuckets_def list_all_iff filter_empty_conv)

lemma status_upload:
  "status (fst (case fetch_upload b2 req e bucket k of
                  (Inl err, calls) \<Rightarrow> (\<lparr>status = 500, resp_headers = [], resp_body = Some (message err)\<rparr>, calls)
                | (Inr resp, calls) \<Rightarrow> (resp, calls))) \<in> {200, 400, 500}"
  by (auto simp: fetch_upload_def uploadToB2_def Let_def split: option.splits b2_result.splits prod.splits sum.splits)

lemma status_get:
  "status (fst (case fetch_get b2 e bucket k of
                  (Inl err, calls) \<Rightarrow> (\<lparr>status = 500, resp_headers = [], resp_body = Some (message err)\<rparr>, calls)
                | (Inr resp, calls) \<Rightarrow> (resp, calls))) \<in> {200, 404, 500}"
  by (auto simp: fetch_get_def listB2Objects_def downloadFromB2_def Let_def split: option.splits b2_result.splits prod.splits sum.splits)

lemma status_delete:
  "status (fst (case fetch_delete b2 e bucket k of
                  (Inl err, calls) \<Rightarrow> (\<lparr>status = 500, resp_headers = [], resp_body = Some (message err)\<rparr>, calls)
                | (Inr resp, calls) \<Rightarrow> (resp, calls))) \<in> {204, 400, 404, 500}"
  by (auto simp: fetch_delete_def deleteFromB2_def Let_def split: option.splits b2_result.splits prod.splits sum.splits)

lemma status_head:
  "status (fst (case fetch_head b2 e bucket k of
                  (Inl err, calls) \<Rightarrow> (\<lparr>status = 500, resp_headers = [], resp_body = Some (message err)\<rparr>, calls)
                | (Inr resp, calls) \<Rightarrow> (resp, calls))) \<in> {200, 400, 404, 500}"
  by (auto simp: fetch_head_def headB2Object_def Let_def split: option.splits b2_result.splits prod.splits sum.splits)

lemma fetch_status_range:
  "status (fst (fetch c b2 req e)) \<in> {200, 204, 400, 403, 404, 405, 500}"
proof -
  note [simp] = fetch_def fetch_try_def Let_def
  consider (opt) "req_method req = ''OPTIONS''"
    | (deny) "req_method req \<noteq> ''OPTIONS''" "\<not> isAllowedBucket (bucket_of (url_pathname (req_url req))) e"
    | (thr) err where "req_method req \<noteq> ''OPTIONS''" "isAllowedBucket (bucket_of (url_pathname (req_url req))) e"
        "verifySignature c req e = Inl err"
    | (bad) "req_method req \<noteq> ''OPTIONS''" "isAllowedBucket (bucket_of (url_pathname (req_url req))) e"
        "verifySignature c req e = Inr False"
    | (good) "req_method req \<noteq> ''OPTIONS''" "isAllowedBucket (bucket_of (url_pathname (req_url req))) e"
        "verifySignature c req e = Inr True"
    by (cases "verifySignature c req e") auto
  then show ?thesis
  proof cases
    case opt then show ?thesis by simp
  next
    case deny then show ?thesis by simp
  next
    case thr then show ?thesis by simp
  next
    case bad then show ?thesis by simp
  next
    case good
    consider (up) "req_method req = ''PUT'' \<or> req_method req = ''POST''"
      | (get) "req_method req = ''GET''"
      | (del) "req_method req = ''DELETE''"
      | (hd) "req_method req = ''HEAD''"
      | (other) "req_method req \<notin> {''PUT'', ''POST'', ''GET'', ''DELETE'', ''HEAD''}"
      by auto
    then show ?thesis
    proof cases
      case up
      with good status_upload [of b2 req e "bucket_of (url_pathname (req_url req))" "objectKey_of (url_pathname (req_url req))"]
      show ?thesis by auto
    next
      case get
      with good status_get [of b2 e "bucket_of (url_pathname (req_url req))" "objectKey_of (url_pathname (req_url req))"]
      show ?thesis by auto
    next
      case del
      with good status_delete [of b2 e "bucket_of (url_pathname (req_url req))" "objectKey_of (url_pathname (req_url req))"]
      show ?thesis by auto
    next
      case hd
      with good status_head [of b2 e "bucket_of (url_pathname (req_url req))" "objectKey_of (url_pathname (req_url req))"]
      show ?thesis by auto
    next
      case other
      with good show ?thesis by simp
    qed
  qed
qed

lemma show_nat_503: "show_nat 503 = ''503''"
  by (simp add: show_nat.simps digit_char_def char_of_eq_iff)

lemma bucket_missing: "bucket_of ''/test-bucket/missing.txt'' = ''test-bucket''"
  by (simp add: bucket_of_def pathParts_def)

lemma key_missing: "objectKey_of ''/test-bucket/missing.txt'' = ''missing.txt''"
  by (simp add: objectKey_of_def pathParts_def)

lemma show_nat_3digits:
  assumes "100 \<le> n" "n \<le> 999"
  shows "show_nat n = [digit_char (n div 100), digit_char (n div 10 mod 10), digit_char (n mod 10)]"
proof -
  have a: "\<not> n < 10" "\<not> n div 10 < 10" "n div 10 div 10 < 10"
    using assms by auto
  have "show_nat n = show_nat (n div 10) @ [digit_char (n mod 10)]"
    using a(1) by (subst show_nat.simps) simp
  also have "show_nat (n div 10) = show_nat (n div 10 div 10) @ [digit_char (n div 10 mod 10)]"
    using a(2) by (subst show_nat.simps) simp
  also have "show_nat (n div 10 div 10) = [digit_char (n div 10 div 10)]"
    using a(3) by (subst show_nat.simps) simp
  finally show ?thesis
    by (simp add: div_mult2_eq [symmetric])
qed

lemma digit_char_eq: "d < 10 \<Longrightarrow> (digit_char d = c) = (48 + d = of_char c)"
  by (auto simp: digit_char_def char_of_eq_iff take_bit_eq_mod)

lemma includes_404:
  "op \<in> {''Download'', ''Delete'', ''HEAD''} \<Longrightarrow>
   str_includes (op @ '' failed: '' @ [a, b, c]) ''404'' = (a = CHR ''4'' \<and> b = CHR ''0'' \<and> c = CHR ''4'')"
  by (elim insertE emptyE) auto

lemma includes_NoSuchKey:
  "op \<in> {''Download'', ''Delete'', ''HEAD''} \<Longrightarrow>
   \<not> str_includes (op @ '' failed: '' @ [a, b, c]) ''NoSuchKey''"
  by (elim insertE emptyE) simp_all

lemma digits_404:
  fixes n :: nat
  shows "(n div 100 = 4 \<and> n div 10 mod 10 = 0 \<and> n mod 10 = 4) = (n = 404)"
proof
  assume h: "n div 100 = 4 \<and> n div 10 mod 10 = 0 \<and> n mod 10 = 4"
  have "n div 10 div 10 = n div 100"
    by (simp add: div_mult2_eq [symmetric])
  with h have "n div 10 = 10 * 4 + 0"
    using div_mult_mod_eq [of "n div 10" 10] by simp
  with h show "n = 404"
    using div_mult_mod_eq [of n 10] by simp
next
  assume "n = 404"
  then show "n div 100 = 4 \<and> n div 10 mod 10 = 0 \<and> n mod 10 = 4"
    by simp
qed

lemma status_message_not_found:
  assumes "100 \<le> n" "n \<le> 999"
    and "op \<in> {''Download'', ''Delete'', ''HEAD''}"
  shows "is_not_found (Error (op @ '' failed: '' @ show_nat n)) = (n = 404)"
proof -
  have d: "n div 100 < 10" "n div 10 mod 10 < 10" "n mod 10 < 10"
    using assms by auto
  have "is_not_found (Error (op @ '' failed: '' @ show_nat n)) =
        (digit_char (n div 100) = CHR ''4'' \<and> digit_char (n div 10 mod 10) = CHR ''0''
          \<and> digit_char (n mod 10) = CHR ''4'')"
    unfolding is_not_found_def show_nat_3digits [OF assms(1,2)] js_error.sel
    by (simp only: includes_404 [OF assms(3)] includes_NoSuchKey [OF assms(3)] simp_thms)
  also have "\<dots> = (n div 100 = 4 \<and> n div 10 mod 10 = 0 \<and> n mod 10 = 4)"
    unfolding digit_char_eq [OF d(1)] digit_char_eq [OF d(2)] digit_char_eq [OF d(3)]
    by simp
  finally show ?thesis
    by (simp only: digits_404)
qed

section \<open>Facts about the canonical request\<close>

lemma map_of_filter_key: "map_of ps k = map_of (filter (\<lambda>p. fst p = k) ps) k"
  by (induction ps) auto

lemma mset_from_key_filters:
  assumes "\<forall>k. filter (\<lambda>p. fst p = k) ps' = filter (\<lambda>p. fst p = k) ps"
  shows "mset ps' = mset ps"
proof (rule multiset_eqI)
  fix x :: "'a \<times> 'b"
  have f: "filter ((=) x) (filter (\<lambda>p. fst p = fst x) xs) = filter ((=) x) xs" for xs
    unfolding filter_filter by (rule filter_cong) auto
  from assms have "filter (\<lambda>p. fst p = fst x) ps' = filter (\<lambda>p. fst p = fst x) ps"
    by blast
  then have "filter ((=) x) (filter (\<lambda>p. fst p = fst x) ps')
           = filter ((=) x) (filter (\<lambda>p. fst p = fst x) ps)"
    by (rule arg_cong)
  then have "filter ((=) x) ps' = filter ((=) x) ps"
    by (simp only: f)
  then show "count (mset ps') x = count (mset ps) x"
    by (simp only: count_mset count_list_eq_length_filter)
qed

lemma sort_key_same_groups:
  fixes xs ys :: "('k::linorder \<times> 'v) list"
  assumes "\<forall>k. filter (\<lambda>p. fst p = k) ys = filter (\<lambda>p. fst p = k) xs"
  shows "sort_key fst ys = sort_key fst xs"
proof -
  have "sort_key fst xs = sort_key fst ys"
  proof (rule properties_for_sort_key)
    show "mset (sort_key fst ys) = mset xs"
      using mset_from_key_filters [OF assms] by simp
    show "sorted (map fst (sort_key fst ys))"
      by simp
    fix k assume "k \<in> set (sort_key fst ys)"
    have "filter (\<lambda>x. fst k = fst x) (sort_key fst ys) = filter (\<lambda>x. fst x = fst k) (sort_key fst ys)"
      by (simp add: eq_commute)
    also have "\<dots> = filter (\<lambda>x. fst x = fst k) ys"
      by (rule sort_key_stable)
    also have "\<dots> = filter (\<lambda>x. fst x = fst k) xs"
      using assms by simp
    also have "\<dots> = filter (\<lambda>x. fst k = fst x) xs"
      by (simp add: eq_commute)
    finally show "filter (\<lambda>x. fst k = fst x) (sort_key fst ys) = filter (\<lambda>x. fst k = fst x) xs" .
  qed
  then show ?thesis by simp
qed

lemma key_filters_filter:
  assumes "\<forall>k. filter (\<lambda>p. fst p = k) ys = filter (\<lambda>p. fst p = k) xs"
  shows "\<forall>k. filter (\<lambda>p. fst p = k) (filter P ys) = filter (\<lambda>p. fst p = k) (filter P xs)"
proof
  fix k
  have c: "filter (\<lambda>p. fst p = k) (filter P zs) = filter P (filter (\<lambda>p. fst p = k) zs)" for zs
    unfolding filter_filter by (rule filter_cong) auto
  from assms have "filter (\<lambda>p. fst p = k) ys = filter (\<lambda>p. fst p = k) xs"
    by blast
  then have "filter P (filter (\<lambda>p. fst p = k) ys) = filter P (filter (\<lambda>p. fst p = k) xs)"
    by (rule arg_cong)
  then show "filter (\<lambda>p. fst p = k) (filter P ys) = filter (\<lambda>p. fst p = k) (filter P xs)"
    by (simp only: c)
qed

lemma canonicalParams_same_groups:
  assumes "\<forall>k. filter (\<lambda>p. fst p = k) ps' = filter (\<lambda>p. fst p = k) ps"
  shows "canonicalParams ps' = canonicalParams ps"
  unfolding canonicalParams_def
  using sort_key_same_groups [OF key_filters_filter [OF assms]] by simp

lemma searchParams_get_same_groups:
  assumes "\<forall>k. filter (\<lambda>p. fst p = k) ps' = filter (\<lambda>p. fst p = k) ps"
  shows "searchParams_get ps' k = searchParams_get ps k"
  unfolding searchParams_get_def
  using assms map_of_filter_key [of ps' k] map_of_filter_key [of ps k] by simp

lemma with_params_fields [simp]:
  "req_method (with_params req ps) = req_method req"
  "req_headers (with_params req ps) = req_headers req"
  "req_body (with_params req ps) = req_body req"
  "url_protocol (req_url (with_params req ps)) = url_protocol (req_url req)"
  "url_hostname (req_url (with_params req ps)) = url_hostname (req_url req)"
  "url_port (req_url (with_params req ps)) = url_port (req_url req)"
  "url_pathname (req_url (with_params req ps)) = url_pathname (req_url req)"
  "url_searchParams (req_url (with_params req ps)) = ps"
  by (simp_all add: with_params_def)

lemma canonicalHeader_with_params [simp]:
  "canonicalHeader (with_params req ps) = canonicalHeader req"
  by (rule ext) (simp add: canonicalHeader_def hostHeader_def Let_def)

lemma createCanonicalRequest_same_groups:
  assumes "\<forall>k. filter (\<lambda>p. fst p = k) ps' = filter (\<lambda>p. fst p = k) ps"
  shows "createCanonicalRequest (with_params req ps') q = createCanonicalRequest (with_params req ps) q"
proof -
  have "signedHeadersList (with_params req ps') q = signedHeadersList (with_params req ps) q"
    by (simp add: signedHeadersList_def authHeader_of_def searchParams_get_same_groups [OF assms])
  then show ?thesis
    by (simp add: createCanonicalRequest_def Let_def canonicalParams_same_groups [OF assms]
        split: sum.splits)
qed

lemma distinct_keys_groups:
  assumes "distinct (map fst ps)" "mset ps' = mset ps"
  shows "\<forall>k. filter (\<lambda>p. fst p = k) ps' = filter (\<lambda>p. fst p = k) ps"
proof
  fix k
  have d': "distinct (map fst ps')"
    using assms by (metis distinct_map mset_eq_imp_distinct_iff set_mset_mset) 
  have one: "filter (\<lambda>p. fst p = k) xs = (case map_of xs k of None \<Rightarrow> [] | Some v \<Rightarrow> [(k, v)])"
    if "distinct (map fst xs)" for xs :: "('a \<times> 'b) list"
    using that
  proof (induction xs)
    case Nil then show ?case by simp
  next
    case (Cons x xs)
    then show ?case
      by (cases x) (auto simp: filter_empty_conv map_of_eq_None_iff image_iff split: option.splits)
  qed
  have "map_of ps' = map_of ps"
    using assms d' by (metis map_of_inject_set mset_eq_setD)
  then show "filter (\<lambda>p. fst p = k) ps' = filter (\<lambda>p. fst p = k) ps"
    using one [OF assms(1)] one [OF d'] by simp
qed

lemma hex_digit_upper_alnum: "d < 16 \<Longrightarrow> is_alnum (hex_digit_upper d)"
  by (auto simp: is_alnum_def hex_digit_upper_def)

lemma percent_byte_chars: "ch \<in> set (percent_byte b) \<Longrightarrow> is_alnum ch \<or> ch = CHR ''%''"
proof -
  have "unat b < 256"
    using unsigned_less [of b] by simp
  then have "unat b div 16 < 16" "unat b mod 16 < 16"
    by auto
  then show "ch \<in> set (percent_byte b) \<Longrightarrow> is_alnum ch \<or> ch = CHR ''%''"
    by (auto simp: percent_byte_def hex_digit_upper_alnum)
qed

lemma encodeURIComponent_char_chars:
  "ch \<in> set (encodeURIComponent_char c) \<Longrightarrow>
   is_alnum ch \<or> ch \<in> set ''-_.~%'' \<or> ch \<in> {CHR ''!'', CHR 0x27, CHR ''('', CHR '')'', CHR ''*''}"
  using percent_byte_chars
  by (auto simp: encodeURIComponent_char_def split: if_splits)

lemma escape_sub_delim_chars:
  assumes "is_alnum c \<or> c \<in> set ''-_.~%'' \<or> c \<in> {CHR ''!'', CHR 0x27, CHR ''('', CHR '')'', CHR ''*''}"
    and "ch \<in> set (escape_sub_delim c)"
  shows "is_alnum ch \<or> ch \<in> set ''-_.~%''"
proof (cases "c \<in> {CHR ''!'', CHR 0x27, CHR ''('', CHR '')'', CHR ''*''}")
  case True
  then show ?thesis
    using assms(2)
    by (auto simp: escape_sub_delim_def hex_digit_upper_def is_alnum_def)
next
  case False
  then show ?thesis
    using assms by (auto simp: escape_sub_delim_def)
qed

lemma encodeRFC3986_chars:
  "ch \<in> set (encodeRFC3986 s) \<Longrightarrow> is_alnum ch \<or> ch \<in> set ''-_.~%''"
proof -
  assume "ch \<in> set (encodeRFC3986 s)"
  then obtain c where c: "c \<in> set (encodeURIComponent s)" "ch \<in> set (escape_sub_delim c)"
    by (auto simp: encodeRFC3986_def)
  from c(1) obtain c0 where "c \<in> set (encodeURIComponent_char c0)"
    by (auto simp: encodeURIComponent_def)
  then have "is_alnum c \<or> c \<in> set ''-_.~%'' \<or> c \<in> {CHR ''!'', CHR 0x27, CHR ''('', CHR '')'', CHR ''*''}"
    by (rule encodeURIComponent_char_chars)
  then show ?thesis
    using c(2) by (rule escape_sub_delim_chars)
qed

lemma replace_signature_parts [simp]:
  "isQueryAuth (replace_signature s req) = isQueryAuth req"
  "algorithm_of (replace_signature s req) = algorithm_of req"
  "datetime_of (replace_signature s req) = datetime_of req"
  "signedHeadersList (replace_signature s req) q = signedHeadersList req q"
  by (simp_all add: replace_signature_def isQueryAuth_def searchParams_has_def algorithm_of_def
      datetime_of_def signedHeadersList_def searchParams_get_def authHeader_of_def
      map_of_replace_other)

lemma createCanonicalRequest_replace_signature [simp]:
  "createCanonicalRequest (replace_signature s req) q = createCanonicalRequest req q"
proof -
  have "canonicalParams (url_searchParams (req_url (replace_signature s req)))
        = canonicalParams (url_searchParams (req_url req))"
    by (simp add: replace_signature_def canonicalParams_def filter_replace_signature)
  moreover have "canonicalHeader (replace_signature s req) = canonicalHeader req"
    by (simp add: replace_signature_def)
  moreover have "req_method (replace_signature s req) = req_method req"
       "req_headers (replace_signature s req) = req_headers req"
       "url_pathname (req_url (replace_signature s req)) = url_pathname (req_url req)"
    by (simp_all add: replace_signature_def)
  ultimately show ?thesis
    by (simp add: createCanonicalRequest_def Let_def split: sum.splits)
qed


section \<open>Facts about the digest and the hexadecimal signature\<close>

lemma next_vars_length [simp]: "length (next_vars t1 t2 d s) = length s"
  by (induction t1 t2 d s rule: next_vars.induct) auto

lemma round_vars_length [simp]: "length (round_vars k w s) = length s"
  by (induction k w s rule: round_vars.induct) auto

lemma rounds_length [simp]: "length (rounds ks w s) = length s"
  by (induction ks w s rule: rounds.induct) auto

lemma compress_length [simp]: "length (compress s block) = length s"
  by (simp add: compress_def)

lemma hash_blocks_length [simp]: "length (hash_blocks s ws) = length s"
  by (induction s ws rule: hash_blocks.induct) auto










text \<open>
  Two published test vectors, computed by the definitions above: the digest of
  \<^verbatim>\<open>abc\<close> (FIPS 180-4) and the second test case of RFC 4231 for HMAC-SHA-256.
\<close>

lemma sha256_abc:
  "bufToHex (sha256_digest (utf8_encode ''abc'')) =
     ''ba7816bf8f01cfea414140de5dae2223b00361a396177a9cb410ff61f20015ad''"
  by code_simp

lemma hmac_sha256_rfc4231:
  "bufToHex (hmac_sha256 (utf8_encode ''Jefe'') (utf8_encode ''what do ya want for nothing?'')) =
     ''5bdcc146bf60754e6a042426089575c75a003f089d2739839dec58b964ec3843''"
  by code_simp

section \<open>Facts about the concrete requests\<close>

lemma longer_algorithm_valid:
  "verifySignature web_crypto longer_algorithm_request test_env = Inr True"
  unfolding longer_algorithm_request_def
proof (rule presign_valid)
  let ?r = "with_params (unsigned_request ''GET'' ''/test-bucket/a.txt'')
          [(''X-Amz-Algorithm'', ''AWS4-HMAC-SHA256-V2''),
           (''X-Amz-Date'', ''20240101T000000Z''),
           (''X-Amz-SignedHeaders'', ''host'')]"
  show q: "isQueryAuth ?r"
    by (simp add: isQueryAuth_def searchParams_has_def)
  show "searchParams_get (url_searchParams (req_url ?r)) ''X-Amz-Signature'' = None"
    by (simp add: searchParams_get_def)
  show "str_includes (algorithm_of ?r) ''AWS4-HMAC-SHA256''"
    using q by (simp add: algorithm_of_def searchParams_get_def)
  show "datetime_of ?r \<noteq> []"
    using q by (simp add: datetime_of_def searchParams_get_def)
  show "createCanonicalRequest ?r True =
    Inr (join [CHR 0x0A]
               [''GET'', ''/test-bucket/a.txt'',
                ''X-Amz-Algorithm=AWS4-HMAC-SHA256-V2&X-Amz-Date=20240101T000000Z&X-Amz-SignedHeaders=host'',
                ''host:s3-api.example.com'' @ [CHR 0x0A], ''host'', ''UNSIGNED-PAYLOAD''])"
    by (simp add: createCanonicalRequest_def Let_def unsigned_request_def
      canonicalParams_def signedHeadersList_def searchParams_get_def header_def no_headers_def
      canonicalHeader_def toLowerCase_def lower_char_def hostHeader_def
      encodeRFC3986_def encodeURIComponent_def encodeURIComponent_char_def escape_sub_delim_def
      is_alnum_def)
qed



lemma header_auth_fields [simp]:
  "req_method (header_auth_request cred s) = ''GET''"
  "url_searchParams (req_url (header_auth_request cred s)) = []"
  "url_pathname (req_url (header_auth_request cred s)) = ''/test-bucket/a.txt''"
  "authHeader_of (header_auth_request cred s)
     = authorization_value cred ''host;x-amz-content-sha256;x-amz-date'' s"
  "header (req_headers (header_auth_request cred s)) ''x-amz-date'' = Some ''20240101T000000Z''"
  "header (req_headers (header_auth_request cred s)) ''x-amz-content-sha256'' = Some ''UNSIGNED-PAYLOAD''"
  "\<not> isQueryAuth (header_auth_request cred s)"
  by (simp_all add: header_auth_request_def with_authorization_def header_request_def
      authHeader_of_def header_def ascii_lower_def isQueryAuth_def searchParams_has_def
      no_headers_def char_of_eq_iff)






text \<open>
  The signature of the presigned GET, step by step: the four keys of the signing
  chain, the hash of the canonical request, and the signature itself.
\<close>

lemma kDate_value:
  "hmacSha256 web_crypto (Inl ''AWS4test-secret-key'') ''20240101'' =
     [112, 238, 38, 34, 78, 141, 70, 209, 160, 123, 17, 135, 69, 70, 109, 129, 84, 15, 165, 172, 16,
      146, 118, 108, 51, 23, 202, 242, 34, 173, 167, 52]"
  by code_simp

lemma kRegion_value:
  "hmacSha256 web_crypto (Inr 
       [112, 238, 38, 34, 78, 141, 70, 209, 160, 123, 17, 135, 69, 70, 109, 129, 84, 15, 165, 172, 16,
        146, 118, 108, 51, 23, 202, 242, 34, 173, 167, 52]
    ) ''auto'' =
     [206, 177, 0, 0, 27, 111, 46, 253, 71, 202, 75, 227, 154, 25, 113, 255, 60, 254, 144, 241, 245,
      213, 27, 29, 55, 149, 155, 237, 148, 182, 97, 222]"
  by code_simp

lemma kService_value:
  "hmacSha256 web_crypto (Inr 
       [206, 177, 0, 0, 27, 111, 46, 253, 71, 202, 75, 227, 154, 25, 113, 255, 60, 254, 144, 241, 245,
        213, 27, 29, 55, 149, 155, 237, 148, 182, 97, 222]
    ) ''s3'' =
     [181, 32, 255, 153, 76, 205, 234, 69, 108, 212, 29, 112, 108, 16, 69, 32, 159, 3, 129, 212, 99,
      45, 166, 108, 70, 9, 160, 243, 185, 250, 176, 49]"
  by code_simp

lemma kSigning_value:
  "hmacSha256 web_crypto (Inr 
       [181, 32, 255, 153, 76, 205, 234, 69, 108, 212, 29, 112, 108, 16, 69, 32, 159, 3, 129, 212, 99,
        45, 166, 108, 70, 9, 160, 243, 185, 250, 176, 49]
    ) ''aws4_request'' =
     [155, 188, 20, 254, 206, 44, 54, 95, 83, 21, 228, 186, 58, 150, 8, 155, 246, 218, 121, 121,
      235, 154, 242, 200, 118, 2, 234, 61, 255, 228, 253, 181]"
  by code_simp

lemma canonical_hash_value:
  "sha256 web_crypto
     ''GET\<newline>/test-bucket/a.txt\<newline>X-Amz-Algorithm=AWS4-HMAC-SHA256&X-Amz-Credential=test-access-key%2F20240101%2Fauto%2Fs3%2Faws4_request&X-Amz-Date=20240101T000000Z&X-Amz-Expires=3600&X-Amz-SignedHeaders=host\<newline>host:s3-api.example.com\<newline>\<newline>host\<newline>UNSIGNED-PAYLOAD'' =
     ''55c81aa16aaba2b9f35fdaca9bb125c5992bf2d10a8d480fb3f6babaf2e99c21''"
  by code_simp

lemma signature_value:
  "bufToHex (hmacSha256 web_crypto (Inr
       [155, 188, 20, 254, 206, 44, 54, 95, 83, 21, 228, 186, 58, 150, 8, 155, 246, 218, 121, 121,
        235, 154, 242, 200, 118, 2, 234, 61, 255, 228, 253, 181])
     ''AWS4-HMAC-SHA256\<newline>20240101T000000Z\<newline>20240101/auto/s3/aws4_request\<newline>55c81aa16aaba2b9f35fdaca9bb125c5992bf2d10a8d480fb3f6babaf2e99c21'') =
     ''449656e6c51cf024caab63e9aed0ab1efaf5e898af0918b7d2b9db9db4220d6e''"
  by code_simp

lemma signed_get_canonical:
  "createCanonicalRequest (unsigned_request ''GET'' ''/test-bucket/a.txt'') True =
     Inr ''GET\<newline>/test-bucket/a.txt\<newline>X-Amz-Algorithm=AWS4-HMAC-SHA256&X-Amz-Credential=test-access-key%2F20240101%2Fauto%2Fs3%2Faws4_request&X-Amz-Date=20240101T000000Z&X-Amz-Expires=3600&X-Amz-SignedHeaders=host\<newline>host:s3-api.example.com\<newline>\<newline>host\<newline>UNSIGNED-PAYLOAD''"
  by (simp add: createCanonicalRequest_def Let_def unsigned_request_def query_params_def
      canonicalParams_def signedHeadersList_def searchParams_get_def header_def no_headers_def
      canonicalHeader_def toLowerCase_def lower_char_def hostHeader_def
      encodeRFC3986_def encodeURIComponent_def encodeURIComponent_char_def escape_sub_delim_def
      is_alnum_def percent_byte_def utf8_char_def hex_digit_upper_def char_of_eq_iff)

lemma signed_get_signatureHex:
  "signatureHex web_crypto test_env ''20240101T000000Z''
     ''GET\<newline>/test-bucket/a.txt\<newline>X-Amz-Algorithm=AWS4-HMAC-SHA256&X-Amz-Credential=test-access-key%2F20240101%2Fauto%2Fs3%2Faws4_request&X-Amz-Date=20240101T000000Z&X-Amz-Expires=3600&X-Amz-SignedHeaders=host\<newline>host:s3-api.example.com\<newline>\<newline>host\<newline>UNSIGNED-PAYLOAD'' =
     ''449656e6c51cf024caab63e9aed0ab1efaf5e898af0918b7d2b9db9db4220d6e''"
  by (simp add: signatureHex_def stringToSign_def Let_def getSigningKey_def test_env_def
      kDate_value kRegion_value kService_value kSigning_value canonical_hash_value signature_value)

lemma signed_get_unfolded:
  "signed_request ''GET'' ''/test-bucket/a.txt'' =
     with_param (unsigned_request ''GET'' ''/test-bucket/a.txt'') ''X-Amz-Signature''
       ''449656e6c51cf024caab63e9aed0ab1efaf5e898af0918b7d2b9db9db4220d6e''"
proof -
  have q: "isQueryAuth (unsigned_request ''GET'' ''/test-bucket/a.txt'')"
    by (simp add: isQueryAuth_def searchParams_has_def query_params_def)
  have dt: "datetime_of (unsigned_request ''GET'' ''/test-bucket/a.txt'') = ''20240101T000000Z''"
    using q by (simp add: datetime_of_def searchParams_get_def query_params_def)
  show ?thesis
    unfolding signed_request_def presign_def signed_get_canonical dt
    by (simp only: sum.case signed_get_signatureHex)
qed

lemma signed_get_signature:
  "expectedSignature (signed_request ''GET'' ''/test-bucket/a.txt'') =
     ''449656e6c51cf024caab63e9aed0ab1efaf5e898af0918b7d2b9db9db4220d6e''"
proof -
  have q: "isQueryAuth (unsigned_request ''GET'' ''/test-bucket/a.txt'')"
    by (simp add: isQueryAuth_def searchParams_has_def query_params_def)
  have nosig: "searchParams_get (url_searchParams (req_url (unsigned_request ''GET'' ''/test-bucket/a.txt'')))
                 ''X-Amz-Signature'' = None"
    by (simp add: searchParams_get_def query_params_def)
  show ?thesis
    unfolding signed_get_unfolded by (rule expectedSignature_with_signature [OF q nosig])
qed


lemma bad_header_name_throws:
  "verifySignature c bad_header_name_request e = Inl (TypeError ''Invalid header name.'')"
  by (simp add: bad_header_name_request_def verifySignature_def Let_def algorithm_of_def
      datetime_of_def isQueryAuth_def searchParams_has_def searchParams_get_def
      createCanonicalRequest_def signedHeadersList_def canonicalHeader_def toLowerCase_def
      lower_char_def headers_get_def valid_header_name_def is_token_char_def hostHeader_def)

lemma bad_header_name_path: "url_pathname (req_url bad_header_name_request) = ''/test-bucket/a.txt''"
  by (simp add: bad_header_name_request_def)

lemma bad_header_name_method: "req_method bad_header_name_request = ''GET''"
  by (simp add: bad_header_name_request_def)

section \<open>A changed timestamp or region\<close>













































section \<open>The claims\<close>

text \<open>
  Claim C1, as amended. For every request whose method is not OPTIONS and whose
  bucket (the first non-empty path segment) is not on the configured allow-list,
  the gateway returns status 403 with body exactly
  \<^verbatim>\<open>Access denied to this bucket\<close> and makes no backend call. The answer does not
  depend on the signature: it is the same whether \<^const>\<open>verifySignature\<close> would
  accept the request, reject it or throw, so the check comes first.
\<close>

theorem bucket_denied:
  assumes "req_method req \<noteq> ''OPTIONS''"
    and "\<not> isAllowedBucket (bucket_of (url_pathname (req_url req))) e"
  shows "fetch c b2 req e =
           (\<lparr>status = 403, resp_headers = [], resp_body = Some ''Access denied to this bucket''\<rparr>, [])"
  using assms by (simp add: fetch_def fetch_try_def)

text \<open>
  The theorem of C1 at a validly signed GET for a bucket that is not listed, and at
  a request on which \<^const>\<open>verifySignature\<close> would throw: both get the 403 of the
  allow-list.
\<close>

theorem bucket_denied_witness:
  "req_method (signed_request ''GET'' ''/forbidden-bucket/x'') \<noteq> ''OPTIONS''
   \<and> \<not> isAllowedBucket (bucket_of (url_pathname (req_url (signed_request ''GET'' ''/forbidden-bucket/x'')))) test_env
   \<and> verifySignature web_crypto (signed_request ''GET'' ''/forbidden-bucket/x'') test_env = Inr True
   \<and> fetch web_crypto b2_listing (signed_request ''GET'' ''/forbidden-bucket/x'') test_env =
        (\<lparr>status = 403, resp_headers = [], resp_body = Some ''Access denied to this bucket''\<rparr>, [])
   \<and> verifySignature web_crypto bad_header_name_request
         (test_env\<lparr>ALLOWED_BUCKETS := Some ''other-bucket''\<rparr>) = Inl (TypeError ''Invalid header name.'')
   \<and> fetch web_crypto b2_listing bad_header_name_request
         (test_env\<lparr>ALLOWED_BUCKETS := Some ''other-bucket''\<rparr>) =
        (\<lparr>status = 403, resp_headers = [], resp_body = Some ''Access denied to this bucket''\<rparr>, [])"
proof -
  have m: "req_method (signed_request ''GET'' ''/forbidden-bucket/x'') \<noteq> ''OPTIONS''"
    by simp
  have b: "\<not> isAllowedBucket (bucket_of (url_pathname (req_url (signed_request ''GET'' ''/forbidden-bucket/x'')))) test_env"
    by (simp add: test_env_isAllowed bucket_of_def pathParts_def)
  have m': "req_method bad_header_name_request \<noteq> ''OPTIONS''"
    by (simp add: bad_header_name_method)
  have b': "\<not> isAllowedBucket (bucket_of (url_pathname (req_url bad_header_name_request)))
              (test_env\<lparr>ALLOWED_BUCKETS := Some ''other-bucket''\<rparr>)"
    by (simp add: bad_header_name_path bucket_test_a isAllowedBucket_def allowedBuckets_def trim_def
        is_space_def)
  show ?thesis
    using m b bucket_denied [OF m b, of web_crypto b2_listing]
      bucket_denied [OF m' b', of web_crypto b2_listing] signed_request_valid
      bad_header_name_throws
    by simp
qed

text \<open>
  Claim C1 as stated covers every inbound request. An OPTIONS request returns 204
  before the path is looked at (index.ts, lines 11-13), whatever its bucket.
\<close>

theorem options_skips_allow_list:
  "\<not> isAllowedBucket (bucket_of (url_pathname (req_url (unsigned_request ''OPTIONS'' ''/forbidden-bucket/x'')))) test_env
   \<and> fetch web_crypto b2_listing (unsigned_request ''OPTIONS'' ''/forbidden-bucket/x'') test_env =
        (\<lparr>status = 204, resp_headers = [], resp_body = None\<rparr>, [])"
  by (simp add: test_env_isAllowed bucket_of_def pathParts_def fetch_def fetch_try_def)




text \<open>
  Claim C3, as amended. \<^const>\<open>verifySignature\<close> returns false, without throwing,
  whenever the extracted algorithm token is empty or does not contain
  \<^verbatim>\<open>AWS4-HMAC-SHA256\<close>, or the timestamp is absent or empty: the parameter
  \<^verbatim>\<open>X-Amz-Date\<close> for query authentication, the header \<^verbatim>\<open>x-amz-date\<close> for header
  authentication. Whenever every signed header name other than \<^verbatim>\<open>host\<close> is a
  header name, it returns a boolean.
\<close>

theorem verifySignature_rejects:
  "((algorithm_of req = [] \<or> \<not> str_includes (algorithm_of req) ''AWS4-HMAC-SHA256''
       \<or> datetime_of req = []) \<longrightarrow> verifySignature c req e = Inr False)
   \<and> (isQueryAuth req \<and> searchParams_get (url_searchParams (req_url req)) ''X-Amz-Date'' = None
        \<longrightarrow> verifySignature c req e = Inr False)
   \<and> (\<not> isQueryAuth req \<and> header (req_headers req) ''x-amz-date'' = None
        \<longrightarrow> verifySignature c req e = Inr False)
   \<and> ((\<forall>h \<in> set (signedHeadersList req (isQueryAuth req)).
          toLowerCase h = ''host'' \<or> valid_header_name (toLowerCase h))
        \<longrightarrow> (\<exists>b. verifySignature c req e = Inr b))"
proof -
  have a: "(algorithm_of req = [] \<or> \<not> str_includes (algorithm_of req) ''AWS4-HMAC-SHA256''
       \<or> datetime_of req = []) \<longrightarrow> verifySignature c req e = Inr False"
    by (auto simp: verifySignature_def Let_def)
  have b: "isQueryAuth req \<and> searchParams_get (url_searchParams (req_url req)) ''X-Amz-Date'' = None
        \<longrightarrow> verifySignature c req e = Inr False"
    by (auto simp: verifySignature_def Let_def datetime_of_def)
  have c: "\<not> isQueryAuth req \<and> header (req_headers req) ''x-amz-date'' = None
        \<longrightarrow> verifySignature c req e = Inr False"
    by (auto simp: verifySignature_def Let_def datetime_of_def)
  have d: "(\<forall>h \<in> set (signedHeadersList req (isQueryAuth req)).
          toLowerCase h = ''host'' \<or> valid_header_name (toLowerCase h))
        \<longrightarrow> (\<exists>b. verifySignature c req e = Inr b)"
  proof
    assume "\<forall>h \<in> set (signedHeadersList req (isQueryAuth req)).
          toLowerCase h = ''host'' \<or> valid_header_name (toLowerCase h)"
    then obtain cr where "createCanonicalRequest req (isQueryAuth req) = Inr cr"
      using createCanonicalRequest_valid by blast
    then show "\<exists>b. verifySignature c req e = Inr b"
      by (auto simp: verifySignature_def Let_def)
  qed
  from a b c d show ?thesis by blast
qed

text \<open>
  The theorem of C3 at a request with no authentication at all, at a presigned URL
  without \<^verbatim>\<open>X-Amz-Date\<close>, and at a validly signed request.
\<close>

theorem verifySignature_rejects_witness:
  "algorithm_of (with_params (unsigned_request ''GET'' ''/test-bucket/a.txt'') []) = []
   \<and> verifySignature web_crypto (with_params (unsigned_request ''GET'' ''/test-bucket/a.txt'') []) test_env
        = Inr False
   \<and> isQueryAuth (with_params (unsigned_request ''GET'' ''/test-bucket/a.txt'')
                    [(''X-Amz-Algorithm'', ''AWS4-HMAC-SHA256'')])
   \<and> searchParams_get (url_searchParams (req_url
          (with_params (unsigned_request ''GET'' ''/test-bucket/a.txt'')
             [(''X-Amz-Algorithm'', ''AWS4-HMAC-SHA256'')]))) ''X-Amz-Date'' = None
   \<and> verifySignature web_crypto
          (with_params (unsigned_request ''GET'' ''/test-bucket/a.txt'')
             [(''X-Amz-Algorithm'', ''AWS4-HMAC-SHA256'')]) test_env = Inr False
   \<and> \<not> isQueryAuth (with_params (unsigned_request ''GET'' ''/test-bucket/a.txt'') [])
   \<and> header (req_headers (with_params (unsigned_request ''GET'' ''/test-bucket/a.txt'') [])) ''x-amz-date''
        = None
   \<and> list_all (\<lambda>h. toLowerCase h = ''host'' \<or> valid_header_name (toLowerCase h))
        (signedHeadersList (signed_request ''GET'' ''/test-bucket/a.txt'')
           (isQueryAuth (signed_request ''GET'' ''/test-bucket/a.txt'')))
   \<and> verifySignature web_crypto (signed_request ''GET'' ''/test-bucket/a.txt'') test_env = Inr True"
proof -
  let ?r0 = "with_params (unsigned_request ''GET'' ''/test-bucket/a.txt'') []"
  let ?r1 = "with_params (unsigned_request ''GET'' ''/test-bucket/a.txt'')
                    [(''X-Amz-Algorithm'', ''AWS4-HMAC-SHA256'')]"
  let ?r2 = "signed_request ''GET'' ''/test-bucket/a.txt''"
  have q0: "\<not> isQueryAuth ?r0"
    by (simp add: isQueryAuth_def searchParams_has_def)
  have a0: "algorithm_of ?r0 = []"
    using q0 by (simp add: algorithm_of_def authHeader_of_def header_def no_headers_def)
  have h0: "header (req_headers ?r0) ''x-amz-date'' = None"
    by (simp add: header_def no_headers_def)
  have q1: "isQueryAuth ?r1"
    by (simp add: isQueryAuth_def searchParams_has_def)
  have d1: "searchParams_get (url_searchParams (req_url ?r1)) ''X-Amz-Date'' = None"
    by (simp add: searchParams_get_def)
  have l2: "list_all (\<lambda>h. toLowerCase h = ''host'' \<or> valid_header_name (toLowerCase h))
        (signedHeadersList ?r2 (isQueryAuth ?r2))"
    by (simp add: signed_request_def presign_def signedHeadersList_def searchParams_get_def
        query_params_def isQueryAuth_def searchParams_has_def toLowerCase_def lower_char_def
        split: sum.splits)
  show ?thesis
    using q0 a0 h0 q1 d1 l2 signed_request_valid [of "''GET''" "''/test-bucket/a.txt''"]
      verifySignature_rejects [of ?r0 web_crypto test_env]
      verifySignature_rejects [of ?r1 web_crypto test_env]
      verifySignature_rejects [of ?r2 web_crypto test_env]
    by simp
qed

text \<open>
  Claim C3 as stated rejects every algorithm token that differs from
  \<^verbatim>\<open>AWS4-HMAC-SHA256\<close>. The guard tests \<^verbatim>\<open>algorithm.includes("AWS4-HMAC-SHA256")\<close>
  (index.ts, line 280), so the token \<^verbatim>\<open>AWS4-HMAC-SHA256-V2\<close> passes it, and a request
  carrying it and the matching signature is accepted. The claim also lets no
  malformed input raise: a signed header name that is not a header name makes
  \<^verbatim>\<open>request.headers.get\<close> throw inside \<^verbatim>\<open>createCanonicalRequest\<close> (index.ts, line 349).
\<close>

theorem longer_algorithm_accepted:
  "algorithm_of longer_algorithm_request = ''AWS4-HMAC-SHA256-V2''
   \<and> algorithm_of longer_algorithm_request \<noteq> ''AWS4-HMAC-SHA256''
   \<and> verifySignature web_crypto longer_algorithm_request test_env = Inr True
   \<and> verifySignature web_crypto bad_header_name_request test_env = Inl (TypeError ''Invalid header name.'')"
proof -
  have a: "algorithm_of longer_algorithm_request = ''AWS4-HMAC-SHA256-V2''"
    by (simp add: longer_algorithm_request_def presign_def algorithm_of_def isQueryAuth_def
        searchParams_has_def searchParams_get_def split: sum.splits)
  have b: "verifySignature web_crypto bad_header_name_request test_env = Inl (TypeError ''Invalid header name.'')"
    by (rule bad_header_name_throws)
  from a b longer_algorithm_valid show ?thesis by simp
qed

text \<open>
  Claim C4, as amended. The canonical request does not depend on the order of the
  query parameters as long as the parameters that share a key keep their relative
  order; in particular, when the keys are pairwise distinct, every permutation of
  the parameters yields a byte-identical string. The parameters other than
  \<^verbatim>\<open>X-Amz-Signature\<close> are sorted by key, and each key and value is percent-encoded
  so that only letters, digits and \<^verbatim>\<open>-_.~%\<close> remain: the characters \<^verbatim>\<open>!'()*\<close> are
  escaped too.
\<close>

theorem canonical_request_order:
  "((\<forall>k. filter (\<lambda>p. fst p = k) ps' = filter (\<lambda>p. fst p = k) ps) \<longrightarrow>
      createCanonicalRequest (with_params req ps') q = createCanonicalRequest (with_params req ps) q)
   \<and> (distinct (map fst ps) \<and> mset ps' = mset ps \<longrightarrow>
      createCanonicalRequest (with_params req ps') q = createCanonicalRequest (with_params req ps) q)
   \<and> (\<forall>ch \<in> set (encodeRFC3986 s). is_alnum ch \<or> ch \<in> set ''-_.~%'')"
  using createCanonicalRequest_same_groups [of ps' ps req q] distinct_keys_groups [of ps ps']
    encodeRFC3986_chars [of _ s]
  by blast

text \<open>
  The theorem of C4 at the parameters of a presigned URL, reversed, and at a value
  that contains all of \<^verbatim>\<open>!'()*\<close>.
\<close>

theorem canonical_request_order_witness:
  "distinct (map fst query_params)
   \<and> mset (rev query_params) = mset query_params
   \<and> createCanonicalRequest
         (with_params (unsigned_request ''GET'' ''/test-bucket/a.txt'') (rev query_params)) True
       = createCanonicalRequest
         (with_params (unsigned_request ''GET'' ''/test-bucket/a.txt'') query_params) True
   \<and> encodeRFC3986 ''it's (a*b)/c d!'' = ''it%27s%20%28a%2Ab%29%2Fc%20d%21''
   \<and> list_all (\<lambda>ch. is_alnum ch \<or> ch \<in> set ''-_.~%'') (encodeRFC3986 ''it's (a*b)/c d!'')"
proof -
  have d: "distinct (map fst query_params)"
    by (simp add: query_params_def)
  have m: "mset (rev query_params) = mset query_params"
    by simp
  have e: "encodeRFC3986 ''it's (a*b)/c d!'' = ''it%27s%20%28a%2Ab%29%2Fc%20d%21''"
    by (simp add: encodeRFC3986_def encodeURIComponent_def encodeURIComponent_char_def
        escape_sub_delim_def is_alnum_def percent_byte_def utf8_char_def hex_digit_upper_def
        char_of_eq_iff)
  show ?thesis
    using d m e
      canonical_request_order [of "rev query_params" query_params
        "unsigned_request ''GET'' ''/test-bucket/a.txt''" True "''it's (a*b)/c d!''"]
    by (simp add: list_all_iff)
qed

text \<open>
  Claim C4 as stated covers every permutation. The sort is stable and compares keys
  only (index.ts, lines 320-324), so two parameters with the same key stay in the
  order of the query string: \<^verbatim>\<open>a=2&a=1\<close> and \<^verbatim>\<open>a=1&a=2\<close> give different canonical
  requests.
\<close>

theorem duplicate_keys_keep_their_order:
  "mset [(''a'', ''2''), (''a'', ''1'')] = mset [(''a'', ''1''), (''a'', ''2'')]
   \<and> createCanonicalRequest
        (with_params (unsigned_request ''GET'' ''/test-bucket/a.txt'') [(''a'', ''2''), (''a'', ''1'')]) False
       = Inr (join [CHR 0x0A]
               [''GET'', ''/test-bucket/a.txt'', ''a=2&a=1'', ''host:s3-api.example.com'' @ [CHR 0x0A],
                ''host'', ''UNSIGNED-PAYLOAD''])
   \<and> createCanonicalRequest
        (with_params (unsigned_request ''GET'' ''/test-bucket/a.txt'') [(''a'', ''1''), (''a'', ''2'')]) False
       = Inr (join [CHR 0x0A]
               [''GET'', ''/test-bucket/a.txt'', ''a=1&a=2'', ''host:s3-api.example.com'' @ [CHR 0x0A],
                ''host'', ''UNSIGNED-PAYLOAD''])
   \<and> createCanonicalRequest
        (with_params (unsigned_request ''GET'' ''/test-bucket/a.txt'') [(''a'', ''2''), (''a'', ''1'')]) False
       \<noteq> createCanonicalRequest
        (with_params (unsigned_request ''GET'' ''/test-bucket/a.txt'') [(''a'', ''1''), (''a'', ''2'')]) False"
  by (simp add: createCanonicalRequest_def Let_def with_params_def unsigned_request_def
      canonicalParams_def signedHeadersList_def authHeader_of_def header_def no_headers_def
      match_SignedHeaders_def canonicalHeader_def toLowerCase_def lower_char_def hostHeader_def
      encodeRFC3986_def encodeURIComponent_def encodeURIComponent_char_def escape_sub_delim_def
      is_alnum_def)

text \<open>
  Claim C5, as amended. For every allow-listed, validly signed request whose method
  is none of PUT, POST, GET, HEAD, DELETE or OPTIONS, the gateway returns status
  405 (body \<^verbatim>\<open>Method not allowed\<close>) and makes no backend call.
\<close>

theorem method_not_allowed:
  assumes "isAllowedBucket (bucket_of (url_pathname (req_url req))) e"
    and "verifySignature c req e = Inr True"
    and "req_method req \<notin> {''PUT'', ''POST'', ''GET'', ''DELETE'', ''HEAD'', ''OPTIONS''}"
  shows "fetch c b2 req e =
           (\<lparr>status = 405, resp_headers = [], resp_body = Some ''Method not allowed''\<rparr>, [])"
  using assms by (simp add: fetch_def fetch_try_def)

text \<open>The theorem of C5 at a validly signed PATCH request.\<close>

theorem method_not_allowed_witness:
  "isAllowedBucket (bucket_of (url_pathname (req_url (signed_request ''PATCH'' ''/test-bucket/a.txt'')))) test_env
   \<and> verifySignature web_crypto (signed_request ''PATCH'' ''/test-bucket/a.txt'') test_env = Inr True
   \<and> req_method (signed_request ''PATCH'' ''/test-bucket/a.txt'')
        \<notin> {''PUT'', ''POST'', ''GET'', ''DELETE'', ''HEAD'', ''OPTIONS''}
   \<and> fetch web_crypto b2_listing (signed_request ''PATCH'' ''/test-bucket/a.txt'') test_env =
        (\<lparr>status = 405, resp_headers = [], resp_body = Some ''Method not allowed''\<rparr>, [])"
proof -
  have a: "isAllowedBucket (bucket_of (url_pathname (req_url (signed_request ''PATCH'' ''/test-bucket/a.txt'')))) test_env"
    by (simp add: bucket_test_a test_env_isAllowed)
  have m: "req_method (signed_request ''PATCH'' ''/test-bucket/a.txt'')
        \<notin> {''PUT'', ''POST'', ''GET'', ''DELETE'', ''HEAD'', ''OPTIONS''}"
    by simp
  show ?thesis
    using a m signed_request_valid [of "''PATCH''" "''/test-bucket/a.txt''"]
      method_not_allowed [OF a signed_request_valid m, of b2_listing]
    by simp
qed

text \<open>
  Claim C5 as stated names POST among the methods answered 405. The handler treats
  POST as PUT (index.ts, line 42): a validly signed POST that names only the bucket
  gets the 400 of the upload branch.
\<close>

theorem post_is_an_upload:
  "isAllowedBucket (bucket_of (url_pathname (req_url (signed_request ''POST'' ''/test-bucket'')))) test_env
   \<and> verifySignature web_crypto (signed_request ''POST'' ''/test-bucket'') test_env = Inr True
   \<and> req_method (signed_request ''POST'' ''/test-bucket'') = ''POST''
   \<and> fetch web_crypto b2_listing (signed_request ''POST'' ''/test-bucket'') test_env =
        (\<lparr>status = 400, resp_headers = [], resp_body = Some ''Object key required''\<rparr>, [])"
  by (simp add: signed_request_valid bucket_test key_test test_env_isAllowed fetch_def fetch_try_def
      fetch_upload_def)

text \<open>
  Claim C6, as amended. For an allow-listed, validly signed GET, HEAD or DELETE of an
  object key the handler classifies a failure of the backend call by the message of
  the error: not found means that the message contains \<^verbatim>\<open>404\<close> or \<^verbatim>\<open>NoSuchKey\<close>.
  When the backend answers the call with status 404, or the call fails with an error
  whose message contains \<^verbatim>\<open>404\<close> or \<^verbatim>\<open>NoSuchKey\<close>, the gateway returns status 404,
  with body exactly \<^verbatim>\<open>NoSuchKey\<close> for GET and no body for HEAD and DELETE. Every
  other failure, that is any other unsuccessful status (three digits, not 404) and
  any error whose message contains neither \<^verbatim>\<open>404\<close> nor \<^verbatim>\<open>NoSuchKey\<close>, is not
  converted: the error leaves the body of the handler, and the response is the 500
  of the outer boundary.
\<close>

theorem not_found_mapping:
  assumes "isAllowedBucket (bucket_of (url_pathname (req_url req))) e"
    and "verifySignature c req e = Inr True"
    and "objectKey_of (url_pathname (req_url req)) \<noteq> []"
    and "req_method req \<in> {''GET'', ''HEAD'', ''DELETE''}"
    and "call = object_call (req_method req) (B2_ENDPOINT e) (bucket_of (url_pathname (req_url req)))
                  (objectKey_of (url_pathname (req_url req)))"
  shows "(\<forall>r. b2 (b2Client e) call = Resolves r \<and> b2_status r = 404 \<longrightarrow>
            fetch c b2 req e = (not_found_response (req_method req), [call]))
       \<and> (\<forall>err. b2 (b2Client e) call = Rejects err
               \<and> (str_includes (message err) ''404'' \<or> str_includes (message err) ''NoSuchKey'') \<longrightarrow>
            fetch c b2 req e = (not_found_response (req_method req), [call]))
       \<and> (\<forall>r. b2 (b2Client e) call = Resolves r \<and> \<not> ok r
               \<and> 100 \<le> b2_status r \<and> b2_status r \<le> 999 \<and> b2_status r \<noteq> 404 \<longrightarrow>
            fetch_try c b2 req e =
              (Inl (Error (failure_word (req_method req) @ '' failed: '' @ show_nat (b2_status r))), [call])
            \<and> fetch c b2 req e =
              (\<lparr>status = 500, resp_headers = [],
                resp_body = Some (failure_word (req_method req) @ '' failed: '' @ show_nat (b2_status r))\<rparr>,
               [call]))
       \<and> (\<forall>err. b2 (b2Client e) call = Rejects err \<and> \<not> str_includes (message err) ''404''
               \<and> \<not> str_includes (message err) ''NoSuchKey'' \<longrightarrow>
            fetch_try c b2 req e = (Inl err, [call])
            \<and> fetch c b2 req e =
              (\<lparr>status = 500, resp_headers = [], resp_body = Some (message err)\<rparr>, [call]))"
proof -
  have w: "failure_word (req_method req) \<in> {''Download'', ''Delete'', ''HEAD''}"
    by (simp add: failure_word_def)
  have nf404: "is_not_found (Error (failure_word (req_method req) @ '' failed: '' @ show_nat 404))"
    using status_message_not_found [OF _ _ w, of 404] by simp
  have other: "\<not> is_not_found (Error (failure_word (req_method req) @ '' failed: '' @ show_nat n))"
    if "100 \<le> n" "n \<le> 999" "n \<noteq> 404" for n
    using status_message_not_found [OF that(1,2) w] that(3) by simp
  have n404: "\<not> ok r" if "b2_status r = 404" for r
    using that by (simp add: ok_def)
  note defs = fetch_def fetch_try_def fetch_get_def fetch_delete_def fetch_head_def
    downloadFromB2_def deleteFromB2_def headB2Object_def Let_def not_found_response_def
  from assms(4) consider (get) "req_method req = ''GET''" | (head) "req_method req = ''HEAD''"
    | (del) "req_method req = ''DELETE''" by auto
  then show ?thesis
  proof cases
    case get
    then have fw: "failure_word (req_method req) = ''Download''" by (simp add: failure_word_def)
    show ?thesis
      using assms(1,2,3,5) get nf404 other n404 unfolding fw
      by (auto simp: defs is_not_found_def)
  next
    case head
    then have fw: "failure_word (req_method req) = ''HEAD''" by (simp add: failure_word_def)
    show ?thesis
      using assms(1,2,3,5) head nf404 other n404 unfolding fw
      by (auto simp: defs is_not_found_def)
  next
    case del
    then have fw: "failure_word (req_method req) = ''Delete''" by (simp add: failure_word_def)
    show ?thesis
      using assms(1,2,3,5) del nf404 other n404 unfolding fw
      by (auto simp: defs is_not_found_def)
  qed
qed

text \<open>
  The theorem of C6 at validly signed requests for \<^verbatim>\<open>/test-bucket/missing.txt\<close>:
  a backend that answers 404, one whose call fails with \<^verbatim>\<open>NoSuchKey\<close>, one whose
  call fails with a message containing \<^verbatim>\<open>404\<close>, and one that answers 503.
\<close>

theorem not_found_mapping_witness:
  "isAllowedBucket (bucket_of (url_pathname (req_url (signed_request ''GET'' ''/test-bucket/missing.txt'')))) test_env
   \<and> verifySignature web_crypto (signed_request ''GET'' ''/test-bucket/missing.txt'') test_env = Inr True
   \<and> objectKey_of (url_pathname (req_url (signed_request ''GET'' ''/test-bucket/missing.txt''))) \<noteq> []
   \<and> fetch web_crypto b2_not_found (signed_request ''GET'' ''/test-bucket/missing.txt'') test_env =
        (\<lparr>status = 404, resp_headers = [], resp_body = Some ''NoSuchKey''\<rparr>,
         [object_call ''GET'' ''s3.us-west-000.backblazeb2.com'' ''test-bucket'' ''missing.txt''])
   \<and> fetch web_crypto b2_not_found (signed_request ''HEAD'' ''/test-bucket/missing.txt'') test_env =
        (\<lparr>status = 404, resp_headers = [], resp_body = None\<rparr>,
         [object_call ''HEAD'' ''s3.us-west-000.backblazeb2.com'' ''test-bucket'' ''missing.txt''])
   \<and> fetch web_crypto b2_no_such_key (signed_request ''DELETE'' ''/test-bucket/missing.txt'') test_env =
        (\<lparr>status = 404, resp_headers = [], resp_body = None\<rparr>,
         [object_call ''DELETE'' ''s3.us-west-000.backblazeb2.com'' ''test-bucket'' ''missing.txt''])
   \<and> fetch web_crypto b2_timeout (signed_request ''HEAD'' ''/test-bucket/missing.txt'') test_env =
        (\<lparr>status = 404, resp_headers = [], resp_body = None\<rparr>,
         [object_call ''HEAD'' ''s3.us-west-000.backblazeb2.com'' ''test-bucket'' ''missing.txt''])
   \<and> fetch web_crypto b2_unavailable (signed_request ''GET'' ''/test-bucket/missing.txt'') test_env =
        (\<lparr>status = 500, resp_headers = [], resp_body = Some ''Download failed: 503''\<rparr>,
         [object_call ''GET'' ''s3.us-west-000.backblazeb2.com'' ''test-bucket'' ''missing.txt''])"
proof -
  let ?p = "''/test-bucket/missing.txt''"
  have a: "isAllowedBucket (bucket_of (url_pathname (req_url (signed_request m ?p)))) test_env" for m
    by (simp add: bucket_missing test_env_isAllowed)
  have k: "objectKey_of (url_pathname (req_url (signed_request m ?p))) \<noteq> []" for m
    by (simp add: key_missing)
  have cl: "object_call m ''s3.us-west-000.backblazeb2.com'' ''test-bucket'' ''missing.txt'' =
            object_call (req_method (signed_request m ?p)) (B2_ENDPOINT test_env)
              (bucket_of (url_pathname (req_url (signed_request m ?p))))
              (objectKey_of (url_pathname (req_url (signed_request m ?p))))" for m
    by (simp add: bucket_missing key_missing test_env_def)
  have m1: "req_method (signed_request ''GET'' ?p) \<in> {''GET'', ''HEAD'', ''DELETE''}" by simp
  have m2: "req_method (signed_request ''HEAD'' ?p) \<in> {''GET'', ''HEAD'', ''DELETE''}" by simp
  have m3: "req_method (signed_request ''DELETE'' ?p) \<in> {''GET'', ''HEAD'', ''DELETE''}" by simp
  have r1: "fetch web_crypto b2_not_found (signed_request ''GET'' ?p) test_env =
        (not_found_response ''GET'', [object_call ''GET'' ''s3.us-west-000.backblazeb2.com'' ''test-bucket'' ''missing.txt''])"
    using not_found_mapping [OF a signed_request_valid k m1 cl, of b2_not_found]
    by (simp add: b2_not_found_def)
  have r2: "fetch web_crypto b2_not_found (signed_request ''HEAD'' ?p) test_env =
        (not_found_response ''HEAD'', [object_call ''HEAD'' ''s3.us-west-000.backblazeb2.com'' ''test-bucket'' ''missing.txt''])"
    using not_found_mapping [OF a signed_request_valid k m2 cl, of b2_not_found]
    by (simp add: b2_not_found_def)
  have r3: "fetch web_crypto b2_no_such_key (signed_request ''DELETE'' ?p) test_env =
        (not_found_response ''DELETE'', [object_call ''DELETE'' ''s3.us-west-000.backblazeb2.com'' ''test-bucket'' ''missing.txt''])"
    using not_found_mapping [OF a signed_request_valid k m3 cl, of b2_no_such_key]
    by (simp add: b2_no_such_key_def)
  have t: "str_includes ''network timeout after 4040 ms'' ''404''"
    by simp
  have r5: "fetch web_crypto b2_timeout (signed_request ''HEAD'' ?p) test_env =
        (not_found_response ''HEAD'', [object_call ''HEAD'' ''s3.us-west-000.backblazeb2.com'' ''test-bucket'' ''missing.txt''])"
    using not_found_mapping [OF a signed_request_valid k m2 cl, of b2_timeout] t
    by (simp add: b2_timeout_def)
  have r4: "fetch web_crypto b2_unavailable (signed_request ''GET'' ?p) test_env =
        (\<lparr>status = 500, resp_headers = [], resp_body = Some (''Download failed: '' @ show_nat 503)\<rparr>,
         [object_call ''GET'' ''s3.us-west-000.backblazeb2.com'' ''test-bucket'' ''missing.txt''])"
    using not_found_mapping [OF a signed_request_valid k m1 cl, of b2_unavailable]
    by (simp add: b2_unavailable_def ok_def failure_word_def)
  show ?thesis
    using a k r1 r2 r3 r4 r5 signed_request_valid
    by (simp add: not_found_response_def show_nat_503)
qed


text \<open>
  Claim C6 as stated fails: the handler does not look at what the backend signalled
  but at the text of the error (index.ts, lines 81-86, 97-102 and 120-125). A call
  that fails with a network error is neither a 404 status nor a \<^verbatim>\<open>NoSuchKey\<close>
  error; when its message contains the digits \<^verbatim>\<open>404\<close> the failure does not
  propagate, and the gateway answers 404 with body \<^verbatim>\<open>NoSuchKey\<close>.
\<close>

theorem failure_mentioning_404_is_not_found:
  "b2_timeout (b2Client test_env)
        (object_call ''GET'' ''s3.us-west-000.backblazeb2.com'' ''test-bucket'' ''missing.txt'')
      = Rejects (Error ''network timeout after 4040 ms'')
   \<and> \<not> str_includes ''network timeout after 4040 ms'' ''NoSuchKey''
   \<and> isAllowedBucket ''test-bucket'' test_env
   \<and> verifySignature web_crypto (signed_request ''GET'' ''/test-bucket/missing.txt'') test_env = Inr True
   \<and> fetch web_crypto b2_timeout (signed_request ''GET'' ''/test-bucket/missing.txt'') test_env =
        (\<lparr>status = 404, resp_headers = [], resp_body = Some ''NoSuchKey''\<rparr>,
         [object_call ''GET'' ''s3.us-west-000.backblazeb2.com'' ''test-bucket'' ''missing.txt''])"
proof -
  let ?r = "signed_request ''GET'' ''/test-bucket/missing.txt''"
  have t: "str_includes ''network timeout after 4040 ms'' ''404''"
    by simp
  have n: "\<not> str_includes ''network timeout after 4040 ms'' ''NoSuchKey''"
    by simp
  have a: "isAllowedBucket ''test-bucket'' test_env"
    by (simp add: test_env_isAllowed)
  have f: "fetch web_crypto b2_timeout ?r test_env =
        (\<lparr>status = 404, resp_headers = [], resp_body = Some ''NoSuchKey''\<rparr>,
         [object_call ''GET'' ''s3.us-west-000.backblazeb2.com'' ''test-bucket'' ''missing.txt''])"
    using a t signed_request_valid [of "''GET''" "''/test-bucket/missing.txt''"]
    by (simp add: fetch_def fetch_try_def fetch_get_def downloadFromB2_def Let_def
        bucket_missing key_missing b2_timeout_def is_not_found_def test_env_def)
  show ?thesis
    using a n f signed_request_valid [of "''GET''" "''/test-bucket/missing.txt''"]
    by (simp add: b2_timeout_def)
qed
text \<open>
  Claim C7. For every allow-listed, validly signed request whose object key is empty:
  PUT, DELETE and HEAD return status 400 without any backend call; GET makes exactly
  one backend call, the listing of the bucket, and returns the listing as
  \<^verbatim>\<open>application/xml\<close> with status 200 when the backend answers with success.
\<close>

theorem missing_object_key:
  assumes "isAllowedBucket (bucket_of (url_pathname (req_url req))) e"
    and "verifySignature c req e = Inr True"
    and "objectKey_of (url_pathname (req_url req)) = []"
  shows "(req_method req \<in> {''PUT'', ''DELETE'', ''HEAD''} \<longrightarrow>
            status (fst (fetch c b2 req e)) = 400 \<and> snd (fetch c b2 req e) = [])
       \<and> (req_method req = ''GET'' \<longrightarrow>
            snd (fetch c b2 req e) = [list_call (B2_ENDPOINT e) (bucket_of (url_pathname (req_url req)))]
            \<and> (\<forall>r. b2 (b2Client e) (list_call (B2_ENDPOINT e) (bucket_of (url_pathname (req_url req)))) = Resolves r
                     \<and> ok r \<longrightarrow>
                   fst (fetch c b2 req e) =
                     \<lparr>status = 200, resp_headers = [(''Content-Type'', ''application/xml'')],
                      resp_body = Some (text_of r)\<rparr>))"
  using assms
  by (auto simp: fetch_def fetch_try_def fetch_upload_def fetch_delete_def fetch_head_def
      fetch_get_def listB2Objects_def list_call_def Let_def split: b2_result.splits)

text \<open>The theorem of C7 at a validly signed PUT and GET of \<^verbatim>\<open>/test-bucket\<close>.\<close>

theorem missing_object_key_witness:
  "isAllowedBucket (bucket_of (url_pathname (req_url (signed_request ''PUT'' ''/test-bucket'')))) test_env
   \<and> verifySignature web_crypto (signed_request ''PUT'' ''/test-bucket'') test_env = Inr True
   \<and> objectKey_of (url_pathname (req_url (signed_request ''PUT'' ''/test-bucket''))) = []
   \<and> status (fst (fetch web_crypto b2_listing (signed_request ''PUT'' ''/test-bucket'') test_env)) = 400
   \<and> snd (fetch web_crypto b2_listing (signed_request ''PUT'' ''/test-bucket'') test_env) = []
   \<and> verifySignature web_crypto (signed_request ''GET'' ''/test-bucket'') test_env = Inr True
   \<and> fetch web_crypto b2_listing (signed_request ''GET'' ''/test-bucket'') test_env =
        (\<lparr>status = 200, resp_headers = [(''Content-Type'', ''application/xml'')],
          resp_body = Some ''<ListBucketResult/>''\<rparr>,
         [\<lparr>call_method = ''GET'', call_url = ''https://s3.us-west-000.backblazeb2.com/test-bucket'',
           call_headers = [], call_body = None\<rparr>])"
proof -
  have a: "isAllowedBucket (bucket_of (url_pathname (req_url (signed_request m ''/test-bucket'')))) test_env" for m
    by (simp add: bucket_test test_env_isAllowed)
  have k: "objectKey_of (url_pathname (req_url (signed_request m ''/test-bucket''))) = []" for m
    by (simp add: key_test)
  have r: "b2_listing (b2Client test_env) (list_call (B2_ENDPOINT test_env) ''test-bucket'') =
             Resolves \<lparr>b2_status = 200, b2_headers = no_headers, b2_body = Some ''<ListBucketResult/>''\<rparr>"
    by (simp add: b2_listing_def)
  have okr: "ok \<lparr>b2_status = 200, b2_headers = no_headers, b2_body = Some ''<ListBucketResult/>''\<rparr>"
    by (simp add: ok_def)
  have lc: "list_call (B2_ENDPOINT test_env) ''test-bucket'' =
      \<lparr>call_method = ''GET'', call_url = ''https://s3.us-west-000.backblazeb2.com/test-bucket'',
           call_headers = [], call_body = None\<rparr>"
    by (simp add: list_call_def test_env_def)
  show ?thesis
    using a k r okr
      missing_object_key [OF a signed_request_valid k, of "''PUT''" b2_listing]
      missing_object_key [OF a signed_request_valid k, of "''GET''" b2_listing]
      signed_request_valid
    by (simp add: bucket_test text_of_def lc prod_eq_iff)
qed

text \<open>
  Claim C8. An error that leaves the body of the handler is turned into the
  response 500 whose body is the message of the error, and a response the body
  returns is returned unchanged; so the handler always returns a response, with one
  of the statuses 200, 204, 400, 403, 404, 405 and 500. In particular a failed
  upload (the backend answers a validly signed PUT without success) becomes a 500
  whose body is \<^verbatim>\<open>Upload failed: <status> <text>\<close>.
\<close>

theorem errors_become_500:
  "(\<forall>err calls. fetch_try c b2 req e = (Inl err, calls) \<longrightarrow>
      fetch c b2 req e = (\<lparr>status = 500, resp_headers = [], resp_body = Some (message err)\<rparr>, calls))
   \<and> (\<forall>resp calls. fetch_try c b2 req e = (Inr resp, calls) \<longrightarrow> fetch c b2 req e = (resp, calls))
   \<and> status (fst (fetch c b2 req e)) \<in> {200, 204, 400, 403, 404, 405, 500}
   \<and> (\<forall>content r.
        isAllowedBucket (bucket_of (url_pathname (req_url req))) e
        \<and> verifySignature c req e = Inr True
        \<and> req_method req = ''PUT''
        \<and> objectKey_of (url_pathname (req_url req)) \<noteq> []
        \<and> req_body req = Some content
        \<and> b2 (b2Client e)
             (upload_call (B2_ENDPOINT e) (bucket_of (url_pathname (req_url req)))
                (objectKey_of (url_pathname (req_url req))) content
                (header_or (req_headers req) ''Content-Type'' ''application/octet-stream'')) = Resolves r
        \<and> \<not> ok r \<longrightarrow>
        fst (fetch c b2 req e) =
          \<lparr>status = 500, resp_headers = [],
           resp_body = Some (''Upload failed: '' @ show_nat (b2_status r) @ '' '' @ text_of r)\<rparr>)"
proof -
  have a: "\<forall>err calls. fetch_try c b2 req e = (Inl err, calls) \<longrightarrow>
      fetch c b2 req e = (\<lparr>status = 500, resp_headers = [], resp_body = Some (message err)\<rparr>, calls)"
    by (simp add: fetch_def)
  have b: "\<forall>resp calls. fetch_try c b2 req e = (Inr resp, calls) \<longrightarrow> fetch c b2 req e = (resp, calls)"
    by (simp add: fetch_def)
  have d: "\<forall>content r.
        isAllowedBucket (bucket_of (url_pathname (req_url req))) e
        \<and> verifySignature c req e = Inr True
        \<and> req_method req = ''PUT''
        \<and> objectKey_of (url_pathname (req_url req)) \<noteq> []
        \<and> req_body req = Some content
        \<and> b2 (b2Client e)
             (upload_call (B2_ENDPOINT e) (bucket_of (url_pathname (req_url req)))
                (objectKey_of (url_pathname (req_url req))) content
                (header_or (req_headers req) ''Content-Type'' ''application/octet-stream'')) = Resolves r
        \<and> \<not> ok r \<longrightarrow>
        fst (fetch c b2 req e) =
          \<lparr>status = 500, resp_headers = [],
           resp_body = Some (''Upload failed: '' @ show_nat (b2_status r) @ '' '' @ text_of r)\<rparr>"
    by (auto simp: fetch_def fetch_try_def fetch_upload_def uploadToB2_def Let_def)
  from a b fetch_status_range d show ?thesis by blast
qed

text \<open>
  The theorem of C8 at a validly signed PUT while the backend answers 503, and at a
  request whose signature verification throws.
\<close>

theorem errors_become_500_witness:
  "isAllowedBucket (bucket_of (url_pathname (req_url ((signed_request ''PUT'' ''/test-bucket/a.txt'')\<lparr>req_body := Some ''Hello World''\<rparr>)))) test_env
   \<and> verifySignature web_crypto ((signed_request ''PUT'' ''/test-bucket/a.txt'')\<lparr>req_body := Some ''Hello World''\<rparr>) test_env = Inr True
   \<and> fetch_try web_crypto b2_unavailable ((signed_request ''PUT'' ''/test-bucket/a.txt'')\<lparr>req_body := Some ''Hello World''\<rparr>) test_env =
        (Inl (Error ''Upload failed: 503 slow down''),
         [upload_call ''s3.us-west-000.backblazeb2.com'' ''test-bucket'' ''a.txt'' ''Hello World'' ''application/octet-stream''])
   \<and> fetch web_crypto b2_unavailable ((signed_request ''PUT'' ''/test-bucket/a.txt'')\<lparr>req_body := Some ''Hello World''\<rparr>) test_env =
        (\<lparr>status = 500, resp_headers = [], resp_body = Some ''Upload failed: 503 slow down''\<rparr>,
         [upload_call ''s3.us-west-000.backblazeb2.com'' ''test-bucket'' ''a.txt'' ''Hello World'' ''application/octet-stream''])
   \<and> fetch_try web_crypto b2_listing bad_header_name_request test_env =
        (Inl (TypeError ''Invalid header name.''), [])
   \<and> fetch web_crypto b2_listing bad_header_name_request test_env =
        (\<lparr>status = 500, resp_headers = [], resp_body = Some ''Invalid header name.''\<rparr>, [])"
proof -
  let ?req = "(signed_request ''PUT'' ''/test-bucket/a.txt'')\<lparr>req_body := Some ''Hello World''\<rparr>"
  have t: "fetch_try web_crypto b2_unavailable ?req test_env =
        (Inl (Error ''Upload failed: 503 slow down''),
         [upload_call ''s3.us-west-000.backblazeb2.com'' ''test-bucket'' ''a.txt'' ''Hello World'' ''application/octet-stream''])"
    by (simp add: fetch_try_def signed_request_valid bucket_test_a key_test_a test_env_isAllowed
        fetch_upload_def uploadToB2_def header_or_def header_def no_headers_def b2_unavailable_def
        ok_def text_of_def show_nat_503)
       (simp add: test_env_def)
  have t': "fetch_try web_crypto b2_listing bad_header_name_request test_env =
        (Inl (TypeError ''Invalid header name.''), [])"
    by (simp add: fetch_try_def bad_header_name_method bad_header_name_path bucket_test_a
        test_env_isAllowed bad_header_name_throws)
  show ?thesis
    using t t' errors_become_500 [of web_crypto b2_unavailable ?req test_env]
      errors_become_500 [of web_crypto b2_listing bad_header_name_request test_env]
    by (simp add: signed_request_valid bucket_test_a test_env_isAllowed)
qed

text \<open>
  Claim C9, as amended. The allow-list denies by default: when
  \<^verbatim>\<open>ALLOWED_BUCKETS\<close> is unset, or when every entry between its commas is blank
  after trimming, \<^const>\<open>isAllowedBucket\<close> is false for every bucket name, so every
  request whose method is not OPTIONS is rejected with 403.
\<close>

theorem deny_by_default:
  assumes "ALLOWED_BUCKETS e = None \<or>
           (\<exists>s. ALLOWED_BUCKETS e = Some s \<and> list_all (\<lambda>x. trim x = []) (split_on CHR '','' s))"
  shows "\<not> isAllowedBucket bucket e \<and>
         (req_method req \<noteq> ''OPTIONS'' \<longrightarrow>
            fetch c b2 req e =
              (\<lparr>status = 403, resp_headers = [], resp_body = Some ''Access denied to this bucket''\<rparr>, []))"
proof -
  have deny: "\<not> isAllowedBucket b e" for b
    using assms by (auto simp: isAllowedBucket_def allowedBuckets_blank)
  then show ?thesis
    by (simp add: fetch_def fetch_try_def)
qed

text \<open>The theorem of C9 at an unset list and at the list \<^verbatim>\<open>" , ,"\<close>.\<close>

theorem deny_by_default_witness:
  "ALLOWED_BUCKETS (test_env\<lparr>ALLOWED_BUCKETS := None\<rparr>) = None
   \<and> \<not> isAllowedBucket ''test-bucket'' (test_env\<lparr>ALLOWED_BUCKETS := None\<rparr>)
   \<and> fetch web_crypto b2_listing (signed_request ''GET'' ''/test-bucket/a.txt'')
        (test_env\<lparr>ALLOWED_BUCKETS := None\<rparr>) =
        (\<lparr>status = 403, resp_headers = [], resp_body = Some ''Access denied to this bucket''\<rparr>, [])
   \<and> list_all (\<lambda>x. trim x = []) (split_on CHR '','' '' , ,'')
   \<and> \<not> isAllowedBucket ''test-bucket'' (test_env\<lparr>ALLOWED_BUCKETS := Some '' , ,''\<rparr>)
   \<and> fetch web_crypto b2_listing (signed_request ''GET'' ''/test-bucket/a.txt'')
        (test_env\<lparr>ALLOWED_BUCKETS := Some '' , ,''\<rparr>) =
        (\<lparr>status = 403, resp_headers = [], resp_body = Some ''Access denied to this bucket''\<rparr>, [])"
proof -
  have blank: "list_all (\<lambda>x. trim x = []) (split_on CHR '','' '' , ,'')"
    by (simp add: trim_def is_space_def)
  have h1: "ALLOWED_BUCKETS (test_env\<lparr>ALLOWED_BUCKETS := None\<rparr>) = None \<or>
           (\<exists>s. ALLOWED_BUCKETS (test_env\<lparr>ALLOWED_BUCKETS := None\<rparr>) = Some s
                \<and> list_all (\<lambda>x. trim x = []) (split_on CHR '','' s))"
    by simp
  have h2: "ALLOWED_BUCKETS (test_env\<lparr>ALLOWED_BUCKETS := Some '' , ,''\<rparr>) = None \<or>
           (\<exists>s. ALLOWED_BUCKETS (test_env\<lparr>ALLOWED_BUCKETS := Some '' , ,''\<rparr>) = Some s
                \<and> list_all (\<lambda>x. trim x = []) (split_on CHR '','' s))"
    using blank by simp
  show ?thesis
    using blank
      deny_by_default [OF h1, of "''test-bucket''" "signed_request ''GET'' ''/test-bucket/a.txt''" web_crypto b2_listing]
      deny_by_default [OF h2, of "''test-bucket''" "signed_request ''GET'' ''/test-bucket/a.txt''" web_crypto b2_listing]
    by simp
qed

text \<open>
  Claim C9 as stated rejects every request. With the list unset, an OPTIONS request
  is still answered 204 (index.ts, lines 11-13).
\<close>

theorem options_with_unset_allow_list:
  "ALLOWED_BUCKETS (test_env\<lparr>ALLOWED_BUCKETS := None\<rparr>) = None
   \<and> fetch web_crypto b2_listing (unsigned_request ''OPTIONS'' ''/test-bucket/a.txt'')
        (test_env\<lparr>ALLOWED_BUCKETS := None\<rparr>) =
        (\<lparr>status = 204, resp_headers = [], resp_body = None\<rparr>, [])"
  by (simp add: fetch_def fetch_try_def)

text \<open>
  Claim C10. Path parsing drops empty segments. A leading slash, a trailing slash
  and a repeated slash change neither the bucket nor the object key; and for a path
  written as a slash, then non-empty slash-free segments joined by single slashes,
  the bucket is the first segment and the object key is the remaining segments
  joined with a slash. Hence \<^verbatim>\<open>/b//k/\<close> and \<^verbatim>\<open>/b/k\<close> resolve to the same pair.
\<close>

theorem path_parsing:
  "(bucket_of (CHR ''/'' # p) = bucket_of p \<and> objectKey_of (CHR ''/'' # p) = objectKey_of p)
   \<and> (bucket_of (p @ ''/'') = bucket_of p \<and> objectKey_of (p @ ''/'') = objectKey_of p)
   \<and> (bucket_of (p @ ''//'' @ q) = bucket_of (p @ ''/'' @ q)
        \<and> objectKey_of (p @ ''//'' @ q) = objectKey_of (p @ ''/'' @ q))
   \<and> ((\<forall>s \<in> set (b # ks). s \<noteq> [] \<and> CHR ''/'' \<notin> set s) \<longrightarrow>
        bucket_of (''/'' @ join ''/'' (b # ks)) = b
        \<and> objectKey_of (''/'' @ join ''/'' (b # ks)) = join ''/'' ks)
   \<and> bucket_of ''/b//k/'' = ''b'' \<and> objectKey_of ''/b//k/'' = ''k''
   \<and> bucket_of ''/b/k'' = ''b'' \<and> objectKey_of ''/b/k'' = ''k''"
proof -
  have lead: "bucket_of (CHR ''/'' # p) = bucket_of p \<and> objectKey_of (CHR ''/'' # p) = objectKey_of p"
    by (simp add: bucket_of_def objectKey_of_def pathParts_leading)
  have trail: "bucket_of (p @ ''/'') = bucket_of p \<and> objectKey_of (p @ ''/'') = objectKey_of p"
    by (simp only: bucket_of_def objectKey_of_def pathParts_trailing)
  have rep: "bucket_of (p @ ''//'' @ q) = bucket_of (p @ ''/'' @ q)
        \<and> objectKey_of (p @ ''//'' @ q) = objectKey_of (p @ ''/'' @ q)"
    by (simp only: bucket_of_def objectKey_of_def pathParts_repeated)
  have rt: "bucket_of (''/'' @ join ''/'' (b # ks)) = b
        \<and> objectKey_of (''/'' @ join ''/'' (b # ks)) = join ''/'' ks"
    if "\<forall>s \<in> set (b # ks). s \<noteq> [] \<and> CHR ''/'' \<notin> set s"
  proof -
    have "pathParts (''/'' @ join ''/'' (b # ks)) = b # ks"
      using pathParts_join [OF that] pathParts_leading [of "join ''/'' (b # ks)"] by simp
    then show ?thesis by (simp add: bucket_of_def objectKey_of_def)
  qed
  have ex1: "bucket_of ''/b//k/'' = ''b'' \<and> objectKey_of ''/b//k/'' = ''k''"
    by (simp add: bucket_of_def objectKey_of_def pathParts_def)
  have ex2: "bucket_of ''/b/k'' = ''b'' \<and> objectKey_of ''/b/k'' = ''k''"
    by (simp add: bucket_of_def objectKey_of_def pathParts_def)
  from lead trail rep rt ex1 ex2 show ?thesis by blast
qed

text \<open>The theorem of C10 at the path \<^verbatim>\<open>/photos/2024/a.png\<close>.\<close>

theorem path_parsing_witness:
  "list_all (\<lambda>s. s \<noteq> [] \<and> CHR ''/'' \<notin> set s) [''photos'', ''2024'', ''a.png'']
   \<and> bucket_of ''/photos/2024/a.png'' = ''photos''
   \<and> objectKey_of ''/photos/2024/a.png'' = ''2024/a.png''"
  using path_parsing [of "[]" "[]" "''photos''" "[''2024'', ''a.png'']"] by simp

end
